theory Spec2Isabelle
  imports Main "HOL-Library.Word"
begin

section \<open>Data model of eth/tracers/native/contract.go\<close>

text \<open>
  Bytes and instruction codes are 8-bit words (\<open>vm.OpCode\<close> is declared as a byte),
  an address is the 160-bit value of \<open>common.Address\<close>, and a Go \<open>error\<close> is
  represented by its message, \<open>None\<close> standing for \<open>nil\<close>.
\<close>

type_synonym byte = "8 word"
type_synonym vm_OpCode = "8 word"
type_synonym Address = "160 word"
type_synonym error = string
type_synonym RawMessage = string

record contractTracerConfig =
  OpCode :: string
  WithByteCode :: bool

record contractTracer =
  Addrs :: "string \<rightharpoonup> string"
  config :: contractTracerConfig
  interrupt :: "32 word"
  reason :: "error option"

text \<open>
  The declarations that contract.go uses and that live in other files: the
  \<open>vm\<close> package's \<open>StringToOp\<close>, \<open>OpCode.IsPush\<close>, \<open>CREATE\<close> and
  \<open>CREATE2\<close>, the package's own helpers \<open>addrToHex\<close> and \<open>bytesToHex\<close>, and
  \<open>json.Unmarshal\<close> of the standard library (the configuration it decodes into a
  zero \<open>contractTracerConfig\<close>, or its error). They are parameters of the model:
  a function that uses them takes them as its first argument, and the theorems hold
  for every choice of them unless a hypothesis says otherwise.
\<close>

record deps =
  vm_StringToOp :: "string \<Rightarrow> vm_OpCode"
  vm_IsPush :: "vm_OpCode \<Rightarrow> bool"
  vm_CREATE :: vm_OpCode
  vm_CREATE2 :: vm_OpCode
  addrToHex :: "Address \<Rightarrow> string"
  bytesToHex :: "byte list \<Rightarrow> string"
  json_Unmarshal :: "RawMessage \<Rightarrow> error + contractTracerConfig"

text \<open>
  A Go index expression panics outside the slice; the panic is a value of the model.
\<close>

datatype panic = IndexOutOfRange

definition index :: "'a list \<Rightarrow> nat \<Rightarrow> panic + 'a" where
  "index xs i = (if i < length xs then Inr (xs ! i) else Inl IndexOutOfRange)"

section \<open>The bytecode scanner\<close>

text \<open>
  One iteration of the loop of \<open>findOpcodes\<close> at cursor \<open>i\<close>: it reads
  \<open>bytecode[i]\<close>, and either returns or continues at a new cursor. For a push the
  source adds \<open>int(op - 95)\<close> (byte arithmetic) and then the common \<open>i++\<close>.
  The cursor is a Go \<open>int\<close>; it stays below \<open>len(bytecode) + 256\<close>, so it is a
  natural number here.
\<close>

datatype step = Return bool | Continue nat

definition findOpcodes_body :: "deps \<Rightarrow> byte list \<Rightarrow> vm_OpCode \<Rightarrow> nat \<Rightarrow> panic + step" where
  "findOpcodes_body X bytecode opcode i =
     (case index bytecode i of
        Inl p \<Rightarrow> Inl p
      | Inr op \<Rightarrow>
          if vm_IsPush X op then Inr (Continue (i + unat (op - 95) + 1))
          else if op = opcode then Inr (Return True)
          else Inr (Continue (i + 1)))"

lemma findOpcodes_body_advances:
  "findOpcodes_body X bytecode opcode i = Inr (Continue j) \<Longrightarrow> i < j"
  by (auto simp: findOpcodes_body_def split: sum.splits if_splits)

function findOpcodes_loop :: "deps \<Rightarrow> byte list \<Rightarrow> vm_OpCode \<Rightarrow> nat \<Rightarrow> panic + bool" where
  "findOpcodes_loop X bytecode opcode i =
     (if i < length bytecode then
        (case findOpcodes_body X bytecode opcode i of
           Inl p \<Rightarrow> Inl p
         | Inr (Return b) \<Rightarrow> Inr b
         | Inr (Continue j) \<Rightarrow> findOpcodes_loop X bytecode opcode j)
      else Inr False)"
  by pat_completeness auto
termination
proof (relation "measure (\<lambda>(X, bytecode, opcode, i). length bytecode - i)")
  show "wf (measure (\<lambda>(X, bytecode, opcode, i). length bytecode - i))"
    by simp
next
  fix X :: deps and bytecode :: "byte list" and opcode :: vm_OpCode and i :: nat
    and s :: step and j :: nat
  assume "i < length bytecode" and "findOpcodes_body X bytecode opcode i = Inr s"
    and "s = Continue j"
  then have "i < j" and "i < length bytecode"
    using findOpcodes_body_advances by blast+
  then show "((X, bytecode, opcode, j), (X, bytecode, opcode, i))
      \<in> measure (\<lambda>(X, bytecode, opcode, i). length bytecode - i)"
    by simp
qed

declare findOpcodes_loop.simps [simp del]

definition findOpcodes :: "deps \<Rightarrow> byte list \<Rightarrow> vm_OpCode \<Rightarrow> panic + bool" where
  "findOpcodes X bytecode opcode = findOpcodes_loop X bytecode opcode 0"

text \<open>
  The instructions of a byte sequence in the words of the specification: walking from
  offset 0, each instruction byte is followed, when it is a push-class instruction, by
  its immediate operand, which is data and not an instruction. The operand length of a
  push byte \<open>op\<close> is the \<open>op - 95\<close> of the source (one byte for code 96, and so
  on); an operand cut short by the end of the sequence takes what is left.
\<close>

function instructions :: "deps \<Rightarrow> byte list \<Rightarrow> vm_OpCode list" where
  "instructions X [] = []"
| "instructions X (op # rest) =
     op # instructions X (if vm_IsPush X op then drop (unat (op - 95)) rest else rest)"
  by pat_completeness auto
termination
  by (relation "measure (\<lambda>(X, bytecode). length bytecode)") auto

section \<open>The contract-creation tracer\<close>

text \<open>
  The tracer that \<open>NewContractTracer\<close> allocates: an empty, non-nil map, the given
  configuration, the interruption flag 0 and no reason.
\<close>

definition new_contractTracer :: "contractTracerConfig \<Rightarrow> contractTracer" where
  "new_contractTracer c = \<lparr>Addrs = Map.empty, config = c, interrupt = 0, reason = None\<rparr>"

definition zero_config :: contractTracerConfig where
  "zero_config = \<lparr>OpCode = '''', WithByteCode = False\<rparr>"

text \<open>
  \<open>NewContractTracer\<close>: a \<open>nil\<close> blob (\<open>None\<close>) leaves the zero configuration, any
  other blob is decoded by \<open>json.Unmarshal\<close> and its error is returned. Then a name
  that parses to the zero code and is neither STOP nor empty is replaced by inv.
\<close>

definition NewContractTracer :: "deps \<Rightarrow> RawMessage option \<Rightarrow> error + contractTracer" where
  "NewContractTracer X cfg =
     (case (case cfg of None \<Rightarrow> Inr zero_config | Some raw \<Rightarrow> json_Unmarshal X raw) of
        Inl err \<Rightarrow> Inl err
      | Inr c \<Rightarrow>
          (let t = new_contractTracer c;
               op = vm_StringToOp X (OpCode (config t))
           in if op = 0 \<and> OpCode (config t) \<noteq> ''STOP'' \<and> OpCode (config t) \<noteq> ''''
              then Inr (t\<lparr>config := (config t)\<lparr>OpCode := ''inv''\<rparr>\<rparr>)
              else Inr t))"

text \<open>
  \<open>validateAndStoreOpCode\<close>. The early exit evaluates \<open>findOpcodes\<close> only when the
  name is neither inv nor empty, as the short-circuit operators of the source do; a
  panic of the scan would propagate.
\<close>

definition validateAndStoreOpCode ::
    "deps \<Rightarrow> contractTracer \<Rightarrow> byte list \<Rightarrow> Address \<Rightarrow> panic + contractTracer" where
  "validateAndStoreOpCode X t input to =
     (case (if OpCode (config t) = ''inv'' then Inr True
            else if OpCode (config t) \<noteq> '''' then
              map_sum id Not (findOpcodes X input (vm_StringToOp X (OpCode (config t))))
            else Inr False) of
        Inl p \<Rightarrow> Inl p
      | Inr exit_early \<Rightarrow>
          if exit_early then Inr t
          else if WithByteCode (config t)
            then Inr (t\<lparr>Addrs := (Addrs t)(addrToHex X to \<mapsto> bytesToHex X input)\<rparr>)
            else Inr (t\<lparr>Addrs := (Addrs t)(addrToHex X to \<mapsto> '''')\<rparr>))"

text \<open>
  The hooks. The \<open>env\<close> and \<open>scope\<close> pointers are not used by any of them and are
  left out; gas is a 64-bit word, a \<open>*big.Int\<close> an integer, a duration an integer.
\<close>

definition CaptureStart ::
    "deps \<Rightarrow> contractTracer \<Rightarrow> Address \<Rightarrow> Address \<Rightarrow> bool \<Rightarrow> byte list \<Rightarrow> 64 word \<Rightarrow> int
      \<Rightarrow> panic + contractTracer" where
  "CaptureStart X t frm to create input gas val =
     (if create then validateAndStoreOpCode X t input to else Inr t)"

definition CaptureEnd ::
    "contractTracer \<Rightarrow> byte list \<Rightarrow> 64 word \<Rightarrow> int \<Rightarrow> error option \<Rightarrow> contractTracer" where
  "CaptureEnd t output gasUsed duration err = t"

definition CaptureState ::
    "contractTracer \<Rightarrow> 64 word \<Rightarrow> vm_OpCode \<Rightarrow> 64 word \<Rightarrow> 64 word \<Rightarrow> byte list \<Rightarrow> int
      \<Rightarrow> error option \<Rightarrow> contractTracer" where
  "CaptureState t pc op gas cost rData depth err = t"

definition CaptureFault ::
    "contractTracer \<Rightarrow> 64 word \<Rightarrow> vm_OpCode \<Rightarrow> 64 word \<Rightarrow> 64 word \<Rightarrow> int
      \<Rightarrow> error option \<Rightarrow> contractTracer" where
  "CaptureFault t pc op gas cost depth err = t"

definition CaptureEnter ::
    "deps \<Rightarrow> contractTracer \<Rightarrow> vm_OpCode \<Rightarrow> Address \<Rightarrow> Address \<Rightarrow> byte list \<Rightarrow> 64 word \<Rightarrow> int
      \<Rightarrow> panic + contractTracer" where
  "CaptureEnter X t typ frm to input gas val =
     (if 0 < interrupt t then Inr t
      else if typ = vm_CREATE X \<or> typ = vm_CREATE2 X then validateAndStoreOpCode X t input to
      else Inr t)"

definition CaptureExit ::
    "contractTracer \<Rightarrow> byte list \<Rightarrow> 64 word \<Rightarrow> error option \<Rightarrow> contractTracer" where
  "CaptureExit t output gasUsed err = t"

text \<open>
  \<open>json.Marshal\<close> of the standard library, on a \<open>map[string]string\<close>: the encoder has
  no error case for string keys and string values, and its output (the JSON object of
  the entries, keys sorted) is determined by the map, which represents it here.
\<close>

definition json_Marshal :: "(string \<rightharpoonup> string) \<Rightarrow> error + (string \<rightharpoonup> string)" where
  "json_Marshal m = Inr m"

text \<open>
  \<open>GetResult\<close> returns a pair, the payload (\<open>None\<close> for \<open>nil\<close>) and the error.
\<close>

definition GetResult :: "contractTracer \<Rightarrow> (string \<rightharpoonup> string) option \<times> error option" where
  "GetResult t =
     (case json_Marshal (Addrs t) of
        Inl err \<Rightarrow> (None, Some err)
      | Inr res \<Rightarrow> (Some res, reason t))"

definition Stop :: "contractTracer \<Rightarrow> error option \<Rightarrow> contractTracer" where
  "Stop t err = t\<lparr>reason := err, interrupt := 1\<rparr>"

text \<open>
  Vocabulary for the properties: a creation passes the filter when
  \<open>validateAndStoreOpCode\<close> does not exit early, and the state after recording a
  creation is the state with the entry for the deployed address written.
\<close>

definition passes_filter :: "deps \<Rightarrow> contractTracer \<Rightarrow> byte list \<Rightarrow> bool" where
  "passes_filter X t input =
     (OpCode (config t) \<noteq> ''inv'' \<and>
      (OpCode (config t) = '''' \<or>
       findOpcodes X input (vm_StringToOp X (OpCode (config t))) = Inr True))"

definition observation :: "deps \<Rightarrow> contractTracer \<Rightarrow> byte list \<Rightarrow> string" where
  "observation X t input = (if WithByteCode (config t) then bytesToHex X input else '''')"

definition recorded :: "deps \<Rightarrow> contractTracer \<Rightarrow> byte list \<Rightarrow> Address \<Rightarrow> contractTracer" where
  "recorded X t input to = t\<lparr>Addrs := (Addrs t)(addrToHex X to \<mapsto> observation X t input)\<rparr>"

section \<open>The gas-estimation engine\<close>

text \<open>
  Modelled from the spec: the engine (the backend's \<open>EstimateGas\<close>) is not among the
  sources, only its test \<open>TestSimulatedBackend_EstimateGas\<close> is. The definitions of this
  section follow section 4.5 of the specification step by step, and take the texts of
  the error messages from section 6 and from the expectations of the test.

  The executor is a parameter: \<open>run g\<close> is the outcome of executing the call with the gas
  limit \<open>g\<close> on a fresh copy of the state. An outcome is success, a failure
  attributable to insufficient gas (out of gas), or a failure with a cause not
  attributable to gas: a revert with the decoded reason when there is one, an invalid
  instruction, or another execution failure with its text. Gas values are natural
  numbers.
\<close>

datatype cause =
    Reverted "string option"
  | InvalidInstruction byte
  | ExecutionFailure string

datatype outcome = Success | OutOfGas | Failed cause

text \<open>
  Modelled from the spec: the classified error of an estimation. The call needs more gas
  than the upper bound allows (out of gas at the bound), or it fails for a reason that
  more gas cannot fix.
\<close>

datatype estimate_error = ExceedsAllowance nat | AlwaysFailing cause

text \<open>
  Digits in lower case (the first ten are the decimal digits), a number in decimal as
  the format verb of the message prints it, and a byte as two hexadecimal digits.
\<close>

definition hexdigit :: "nat \<Rightarrow> char" where
  "hexdigit n = ''0123456789abcdef'' ! (n mod 16)"

function decimal :: "nat \<Rightarrow> string" where
  "decimal n = (if n < 10 then [hexdigit n] else decimal (n div 10) @ [hexdigit (n mod 10)])"
  by pat_completeness auto
termination
  by (relation "measure id") auto

declare decimal.simps [simp del]

definition hex2 :: "byte \<Rightarrow> string" where
  "hex2 b = [hexdigit (unat b div 16), hexdigit (unat b)]"

text \<open>
  The readers of these texts, to say what number a text denotes: the value of a digit
  character, and the value of a digit string in base ten and in base sixteen.
\<close>

definition hexval :: "char \<Rightarrow> nat" where
  "hexval c = (if (of_char c :: nat) \<le> 57 then of_char c - 48 else of_char c - 87)"

definition read_decimal :: "string \<Rightarrow> nat" where
  "read_decimal s = foldl (\<lambda>a c. 10 * a + hexval c) 0 s"

definition read_hex :: "string \<Rightarrow> nat" where
  "read_hex s = foldl (\<lambda>a c. 16 * a + hexval c) 0 s"

text \<open>
  Modelled from the spec: the message of a classified error. The texts are those of
  section 6 of the specification and of the errors the test expects.
\<close>

fun cause_text :: "cause \<Rightarrow> string" where
  "cause_text (Reverted r) = ''execution reverted''"
| "cause_text (InvalidInstruction b) = ''invalid opcode: opcode 0x'' @ hex2 b @ '' not defined''"
| "cause_text (ExecutionFailure s) = s"

fun reason_suffix :: "cause \<Rightarrow> string" where
  "reason_suffix (Reverted (Some r)) = '' ('' @ r @ '')''"
| "reason_suffix c = ''''"

fun error_message :: "estimate_error \<Rightarrow> string" where
  "error_message (ExceedsAllowance cap) = ''gas required exceeds allowance ('' @ decimal cap @ '')''"
| "error_message (AlwaysFailing c) =
     ''always failing transaction ('' @ cause_text c @ '')'' @ reason_suffix c"

text \<open>
  Modelled from the spec: step 1 of the engine, the upper bound. It is the caller's cap
  if present and positive, else the execution ceiling.
\<close>

definition upper_bound :: "nat option \<Rightarrow> nat \<Rightarrow> nat" where
  "upper_bound cap ceiling = (case cap of Some c \<Rightarrow> if 0 < c then c else ceiling | None \<Rightarrow> ceiling)"

text \<open>
  Modelled from the spec: steps 3 and 4 of the engine. While the bounds are more than
  one apart, probe the midpoint; success tightens the upper bound, out of gas raises
  the lower bound, any other failure ends the search with that failure. On convergence
  the upper bound is returned.
\<close>

function search :: "(nat \<Rightarrow> outcome) \<Rightarrow> nat \<Rightarrow> nat \<Rightarrow> estimate_error + nat" where
  "search run lower upper =
     (if upper - lower \<le> 1 then Inr upper
      else (let candidate = (lower + upper) div 2
            in case run candidate of
                 Success \<Rightarrow> search run lower candidate
               | OutOfGas \<Rightarrow> search run candidate upper
               | Failed c \<Rightarrow> Inl (AlwaysFailing c)))"
  by pat_completeness auto
termination
  by (relation "measure (\<lambda>(run, lower, upper). upper - lower)") auto

declare search.simps [simp del]

text \<open>
  Modelled from the spec: the engine as a whole, in the order of its steps.
  Step 2: the feasibility probe at the upper bound comes first, and its failure is
  reported with its cause. Step 5: for a call of the plain-transfer shape (\<open>plain\<close>)
  whose intrinsic floor lies within the upper bound, a single probe at the floor that
  succeeds gives the floor and skips the search. Steps 3 and 4 otherwise.

  The lower bound of the search state is a gas value known to fail, or zero (section 3
  and invariant 3 of the specification): the value just below the intrinsic floor of
  step 1, at which no call can run. So the candidates of the search stay within the
  inclusive bounds, from the floor to the upper bound, the floor itself can be the
  answer, and the shortcut of step 5 returns what the search would return.
\<close>

definition estimate ::
    "(nat \<Rightarrow> outcome) \<Rightarrow> nat \<Rightarrow> nat option \<Rightarrow> nat \<Rightarrow> bool \<Rightarrow> estimate_error + nat" where
  "estimate run floor cap ceiling plain =
     (let lower = floor - 1; upper = upper_bound cap ceiling
      in case run upper of
           OutOfGas \<Rightarrow> Inl (ExceedsAllowance upper)
         | Failed c \<Rightarrow> Inl (AlwaysFailing c)
         | Success \<Rightarrow>
             if plain \<and> floor \<le> upper \<and> run floor = Success then Inr floor
             else search run lower upper)"

text \<open>
  Vocabulary for the properties: success that is monotonic in gas; the executor's
  classification of failures, by which a failure with a cause is one that no amount of
  gas can fix (step 3 of the specification); a call that needs exactly \<open>m\<close> gas (out
  of gas below \<open>m\<close>, success from \<open>m\<close> on); and a call that reverts below
  \<open>m\<close> gas and succeeds from \<open>m\<close> on.
\<close>

definition monotonic_in_gas :: "(nat \<Rightarrow> outcome) \<Rightarrow> bool" where
  "monotonic_in_gas run = (\<forall>g g'. run g = Success \<and> g \<le> g' \<longrightarrow> run g' = Success)"


definition needs_gas :: "nat \<Rightarrow> nat \<Rightarrow> outcome" where
  "needs_gas m g = (if g < m then OutOfGas else Success)"


section \<open>JSON texts\<close>

text \<open>
  Vocabulary for the properties of the constructor: JSON values and their compact text,
  to say of a configuration blob that it is valid JSON. Strings are quoted with the
  escapes of the quotation mark, the backslash and the control characters.
\<close>

datatype json =
    JNull
  | JBool bool
  | JNumber int
  | JString string
  | JArray "json list"
  | JObject "(string \<times> json) list"

definition escape_char :: "char \<Rightarrow> string" where
  "escape_char c =
     (if c = CHR 0x22 then [CHR 0x5C, CHR 0x22]
      else if c = CHR 0x5C then [CHR 0x5C, CHR 0x5C]
      else if (of_char c :: nat) < 32
        then [CHR 0x5C] @ ''u00'' @ [hexdigit (of_char c div 16), hexdigit (of_char c)]
      else [c])"

definition quote :: "string \<Rightarrow> string" where
  "quote s = [CHR 0x22] @ concat (map escape_char s) @ [CHR 0x22]"

fun join_commas :: "string list \<Rightarrow> string" where
  "join_commas [] = []"
| "join_commas [x] = x"
| "join_commas (x # y # ys) = x @ '','' @ join_commas (y # ys)"

fun render_json :: "json \<Rightarrow> string" where
  "render_json JNull = ''null''"
| "render_json (JBool b) = (if b then ''true'' else ''false'')"
| "render_json (JNumber n) = (if n < 0 then ''-'' @ decimal (nat (- n)) else decimal (nat n))"
| "render_json (JString s) = quote s"
| "render_json (JArray vs) = ''['' @ join_commas (map render_json vs) @ '']''"
| "render_json (JObject fs) =
     ''{'' @ join_commas (map (\<lambda>(k, v). quote k @ '':'' @ render_json v) fs) @ ''}''"

section \<open>A concrete instance of the parameters\<close>

text \<open>
  Modelled from the spec: \<open>vm.StringToOp\<close> and \<open>OpCode.IsPush\<close> are not among the
  sources. An instruction name parses to its instruction code and a name that is not
  recognised parses to the zero code; push-class instructions are the ones that carry
  an immediate operand. The instance below fixes a fragment of the EVM instruction set
  (STOP = 0x00, PUSH1 .. PUSH32 = 0x60 .. 0x7f, CREATE = 0xf0, CREATE2 = 0xf5) so
  that the model can be evaluated at concrete inputs.
\<close>

definition stringToOp_sample :: "string \<Rightarrow> vm_OpCode" where
  "stringToOp_sample name =
     (case map_of [(''STOP'', 0x00), (''ADD'', 0x01), (''PUSH1'', 0x60), (''CREATE'', 0xf0),
                   (''CREATE2'', 0xf5), (''SELFDESTRUCT'', 0xff)] name of
        Some op \<Rightarrow> op
      | None \<Rightarrow> 0)"

definition isPush_sample :: "vm_OpCode \<Rightarrow> bool" where
  "isPush_sample op = (0x60 \<le> op \<and> op \<le> 0x7f)"

text \<open>
  Modelled from the spec: \<open>addrToHex\<close> and \<open>bytesToHex\<close> are in another file of the
  package. The result payload maps hex-encoded address strings to hex-encoded bytecode
  strings; both are rendered here in lower case after the prefix 0x.
\<close>

definition bytesToHex_sample :: "byte list \<Rightarrow> string" where
  "bytesToHex_sample bs =
     ''0x'' @ concat (map (\<lambda>b. [hexdigit (unat b div 16), hexdigit (unat b)]) bs)"

definition addrToHex_sample :: "Address \<Rightarrow> string" where
  "addrToHex_sample a = ''0x'' @ map (\<lambda>k. hexdigit (unat a div 16 ^ (39 - k))) [0..<40]"

text \<open>
  \<open>json.Unmarshal\<close> on the configuration blobs used below: an array, and an object
  whose \<open>opCode\<close> is a number, which are valid JSON and do not decode into the
  configuration struct; the empty object and objects naming an opcode, which decode;
  and anything else taken as a text that does not decode.
\<close>

definition unmarshal_sample :: "RawMessage \<Rightarrow> error + contractTracerConfig" where
  "unmarshal_sample raw =
     (if raw = ''[]'' then
        Inl ''json: cannot unmarshal array into Go value of type native.contractTracerConfig''
      else if raw = ''{\"opCode\":5}'' then
        Inl (''json: cannot unmarshal number into Go struct field '' @
             ''contractTracerConfig.opCode of type string'')
      else
        (case map_of
           [(''{}'', \<lparr>OpCode = '''', WithByteCode = False\<rparr>),
            (''{\"opCode\":\"STOP\"}'', \<lparr>OpCode = ''STOP'', WithByteCode = False\<rparr>),
            (''{\"opCode\":\"NOSUCHOP\"}'', \<lparr>OpCode = ''NOSUCHOP'', WithByteCode = False\<rparr>),
            (''{\"opCode\":\"CREATE2\",\"withByteCode\":true}'',
               \<lparr>OpCode = ''CREATE2'', WithByteCode = True\<rparr>)] raw of
           Some c \<Rightarrow> Inr c
         | None \<Rightarrow> Inl ''invalid character in configuration''))"

definition evm_deps :: deps where
  "evm_deps =
     \<lparr>vm_StringToOp = stringToOp_sample, vm_IsPush = isPush_sample,
      vm_CREATE = 0xf0, vm_CREATE2 = 0xf5,
      addrToHex = addrToHex_sample, bytesToHex = bytesToHex_sample,
      json_Unmarshal = unmarshal_sample\<rparr>"

section \<open>Properties of the bytecode scanner\<close>

lemma index_in_range: "i < length xs \<Longrightarrow> index xs i = Inr (xs ! i)"
  by (simp add: index_def)

lemma findOpcodes_body_in_range:
  "i < length bytecode \<Longrightarrow> \<exists>s. findOpcodes_body X bytecode opcode i = Inr s"
  by (simp add: findOpcodes_body_def index_in_range)

lemma findOpcodes_loop_past_end:
  "length bytecode \<le> i \<Longrightarrow> findOpcodes_loop X bytecode opcode i = Inr False"
  by (subst findOpcodes_loop.simps) simp

lemma findOpcodes_loop_total: "\<exists>b. findOpcodes_loop X bytecode opcode i = Inr b"
proof (induction X bytecode opcode i rule: findOpcodes_loop.induct)
  case (1 X bytecode opcode i)
  show ?case
  proof (cases "i < length bytecode")
    case False
    then have "findOpcodes_loop X bytecode opcode i = Inr False"
      by (simp add: findOpcodes_loop_past_end)
    then show ?thesis by blast
  next
    case True
    then obtain s where s: "findOpcodes_body X bytecode opcode i = Inr s"
      using findOpcodes_body_in_range by blast
    show ?thesis
    proof (cases s)
      case (Return b)
      with True s show ?thesis by (subst findOpcodes_loop.simps) simp
    next
      case (Continue j)
      from "1.IH" [OF True s Continue]
      obtain b where "findOpcodes_loop X bytecode opcode j = Inr b" by blast
      with True s Continue show ?thesis by (subst findOpcodes_loop.simps) simp
    qed
  qed
qed

lemma findOpcodes_total: "\<exists>b. findOpcodes X bytecode opcode = Inr b"
  by (simp add: findOpcodes_def findOpcodes_loop_total)

lemma findOpcodes_loop_truncated_push:
  assumes "i < length bytecode" and "vm_IsPush X (bytecode ! i)"
    and "length bytecode \<le> i + unat (bytecode ! i - 95) + 1"
  shows "findOpcodes_loop X bytecode opcode i = Inr False"
proof -
  have "findOpcodes_body X bytecode opcode i = Inr (Continue (i + unat (bytecode ! i - 95) + 1))"
    using assms by (simp add: findOpcodes_body_def index_in_range)
  then have "findOpcodes_loop X bytecode opcode i =
      findOpcodes_loop X bytecode opcode (i + unat (bytecode ! i - 95) + 1)"
    using assms(1) by (subst findOpcodes_loop.simps) simp
  then show ?thesis
    using assms(3) by (simp add: findOpcodes_loop_past_end)
qed

text \<open>
  C5. For every byte sequence and every target opcode the scan of \<open>findOpcodes\<close>
  terminates with a boolean and never with the panic of an out-of-range read; every
  iteration that continues moves the cursor forward by at least one byte, and every
  iteration entered below the length reads inside the sequence; and when the cursor
  stands on a push instruction whose operand reaches or passes the end of the
  sequence, the rest is consumed and the scan stops with \<open>false\<close>.
\<close>

theorem findOpcodes_terminates_in_bounds:
  "(\<exists>b. findOpcodes X bytecode opcode = Inr b) \<and>
   (\<forall>i j. findOpcodes_body X bytecode opcode i = Inr (Continue j) \<longrightarrow> i < j) \<and>
   (\<forall>i. i < length bytecode \<longrightarrow> (\<exists>s. findOpcodes_body X bytecode opcode i = Inr s)) \<and>
   (\<forall>i. i < length bytecode \<and> vm_IsPush X (bytecode ! i) \<and>
        length bytecode \<le> i + unat (bytecode ! i - 95) + 1 \<longrightarrow>
        findOpcodes_loop X bytecode opcode i = Inr False)"
proof (intro conjI allI impI)
  show "\<exists>b. findOpcodes X bytecode opcode = Inr b"
    by (rule findOpcodes_total)
next
  fix i j
  assume "findOpcodes_body X bytecode opcode i = Inr (Continue j)"
  then show "i < j" by (rule findOpcodes_body_advances)
next
  fix i
  assume "i < length bytecode"
  then show "\<exists>s. findOpcodes_body X bytecode opcode i = Inr s"
    by (rule findOpcodes_body_in_range)
next
  fix i
  assume "i < length bytecode \<and> vm_IsPush X (bytecode ! i) \<and>
    length bytecode \<le> i + unat (bytecode ! i - 95) + 1"
  then show "findOpcodes_loop X bytecode opcode i = Inr False"
    by (simp add: findOpcodes_loop_truncated_push)
qed

text \<open>
  A PUSH2 followed by a single byte: the operand is cut short, the scan for 0x00 stops
  with \<open>false\<close> although the operand byte is 0x00.
\<close>

theorem findOpcodes_terminates_in_bounds_witness:
  "findOpcodes_body evm_deps [0x61, 0x00] 0x00 0 = Inr (Continue 3) \<and> (0::nat) < 3 \<and>
   (0::nat) < length [0x61, 0x00 :: byte] \<and> vm_IsPush evm_deps ([0x61, 0x00] ! 0) \<and>
   length [0x61, 0x00 :: byte] \<le> 0 + unat ([0x61, 0x00 :: byte] ! 0 - 95) + 1 \<and>
   findOpcodes_loop evm_deps [0x61, 0x00] 0x00 0 = Inr False \<and>
   (1::nat) < length [0x61, 0x00 :: byte] \<and>
   (\<exists>s. findOpcodes_body evm_deps [0x61, 0x00] 0x00 1 = Inr s) \<and>
   findOpcodes evm_deps [0x61, 0x00] 0x00 = Inr False"
proof -
  have body: "findOpcodes_body evm_deps [0x61, 0x00] 0x00 0 = Inr (Continue 3)"
    by (simp add: findOpcodes_body_def index_def evm_deps_def isPush_sample_def)
  have hyp: "(0::nat) < length [0x61, 0x00 :: byte] \<and> vm_IsPush evm_deps ([0x61, 0x00] ! 0) \<and>
      length [0x61, 0x00 :: byte] \<le> 0 + unat ([0x61, 0x00 :: byte] ! 0 - 95) + 1"
    by (simp add: evm_deps_def isPush_sample_def)
  note inst = findOpcodes_terminates_in_bounds [of evm_deps "[0x61, 0x00]" "0x00"]
  from inst body have adv: "(0::nat) < 3" by blast
  from inst hyp have stop: "findOpcodes_loop evm_deps [0x61, 0x00] 0x00 0 = Inr False" by blast
  have len: "(1::nat) < length [0x61, 0x00 :: byte]" by simp
  with inst have rd: "\<exists>s. findOpcodes_body evm_deps [0x61, 0x00] 0x00 1 = Inr s" by blast
  from stop have "findOpcodes evm_deps [0x61, 0x00] 0x00 = Inr False"
    by (simp add: findOpcodes_def)
  with body adv hyp stop len rd show ?thesis by blast
qed

lemma findOpcodes_loop_instructions:
  "findOpcodes_loop X bytecode opcode i =
     Inr (\<not> vm_IsPush X opcode \<and> opcode \<in> set (instructions X (drop i bytecode)))"
proof (induction X bytecode opcode i rule: findOpcodes_loop.induct)
  case (1 X bytecode opcode i)
  show ?case
  proof (cases "i < length bytecode")
    case False
    then show ?thesis by (simp add: findOpcodes_loop_past_end)
  next
    case True
    then have d: "drop i bytecode = bytecode ! i # drop (Suc i) bytecode"
      by (simp add: Cons_nth_drop_Suc)
    show ?thesis
    proof (cases "vm_IsPush X (bytecode ! i)")
      case push: True
      have b: "findOpcodes_body X bytecode opcode i =
          Inr (Continue (i + unat (bytecode ! i - 95) + 1))"
        using True push by (simp add: findOpcodes_body_def index_in_range)
      have "findOpcodes_loop X bytecode opcode i =
          findOpcodes_loop X bytecode opcode (i + unat (bytecode ! i - 95) + 1)"
        using True b by (subst findOpcodes_loop.simps) simp
      also have "\<dots> = Inr (\<not> vm_IsPush X opcode \<and>
          opcode \<in> set (instructions X (drop (i + unat (bytecode ! i - 95) + 1) bytecode)))"
        using "1.IH" [OF True b refl] .
      finally show ?thesis
        using push by (auto simp: d add.commute)
    next
      case nopush: False
      show ?thesis
      proof (cases "bytecode ! i = opcode")
        case eq: True
        have b: "findOpcodes_body X bytecode opcode i = Inr (Return True)"
          using True nopush eq by (simp add: findOpcodes_body_def index_in_range)
        show ?thesis
          using True b nopush eq by (subst findOpcodes_loop.simps) (simp add: d)
      next
        case neq: False
        have b: "findOpcodes_body X bytecode opcode i = Inr (Continue (i + 1))"
          using True nopush neq by (simp add: findOpcodes_body_def index_in_range)
        have "findOpcodes_loop X bytecode opcode i = findOpcodes_loop X bytecode opcode (i + 1)"
          using True b by (subst findOpcodes_loop.simps) simp
        also have "\<dots> = Inr (\<not> vm_IsPush X opcode \<and>
            opcode \<in> set (instructions X (drop (i + 1) bytecode)))"
          using "1.IH" [OF True b refl] .
        finally show ?thesis
          using nopush neq by (auto simp: d)
      qed
    qed
  qed
qed

lemma findOpcodes_instructions:
  "findOpcodes X bytecode opcode =
     Inr (\<not> vm_IsPush X opcode \<and> opcode \<in> set (instructions X bytecode))"
  by (simp add: findOpcodes_def findOpcodes_loop_instructions)

text \<open>
  C2, as the code has it. A byte that is not an instruction of the sequence (it is
  absent, or it occurs only inside push operands) is not found. A target that is not
  itself a push-class instruction is found exactly when it is an instruction of the
  sequence. A target that is a push-class instruction is never found: the scanner
  skips push instructions before it compares.
\<close>

theorem findOpcodes_finds_non_push_instructions:
  "(opcode \<notin> set (instructions X bytecode) \<longrightarrow> findOpcodes X bytecode opcode = Inr False) \<and>
   (\<not> vm_IsPush X opcode \<and> opcode \<in> set (instructions X bytecode) \<longrightarrow>
      findOpcodes X bytecode opcode = Inr True) \<and>
   (vm_IsPush X opcode \<longrightarrow> findOpcodes X bytecode opcode = Inr False)"
  by (simp add: findOpcodes_instructions)

text \<open>
  In PUSH1 0xf5, CREATE2 the byte 0xf5 is found (offset 2), in PUSH1 0xf5, STOP it is
  not: there it is only the operand of the push.
\<close>

theorem findOpcodes_finds_non_push_instructions_witness:
  "\<not> vm_IsPush evm_deps 0xf5 \<and> 0xf5 \<in> set (instructions evm_deps [0x60, 0xf5, 0xf5]) \<and>
   findOpcodes evm_deps [0x60, 0xf5, 0xf5] 0xf5 = Inr True \<and>
   0xf5 \<notin> set (instructions evm_deps [0x60, 0xf5, 0x00]) \<and>
   findOpcodes evm_deps [0x60, 0xf5, 0x00] 0xf5 = Inr False \<and>
   vm_IsPush evm_deps 0x60 \<and> findOpcodes evm_deps [0x60, 0xf5, 0x00] 0x60 = Inr False"
proof -
  have p: "\<not> vm_IsPush evm_deps 0xf5" "vm_IsPush evm_deps 0x60"
    by (simp_all add: evm_deps_def isPush_sample_def)
  have i1: "0xf5 \<in> set (instructions evm_deps [0x60, 0xf5, 0xf5])"
    by (simp add: evm_deps_def isPush_sample_def)
  have i2: "0xf5 \<notin> set (instructions evm_deps [0x60, 0xf5, 0x00])"
    by (simp add: evm_deps_def isPush_sample_def)
  show ?thesis
    using p i1 i2
      findOpcodes_finds_non_push_instructions [of "0xf5" evm_deps "[0x60, 0xf5, 0xf5]"]
      findOpcodes_finds_non_push_instructions [of "0xf5" evm_deps "[0x60, 0xf5, 0x00]"]
      findOpcodes_finds_non_push_instructions [of "0x60" evm_deps "[0x60, 0xf5, 0x00]"]
    by blast
qed

text \<open>
  C2 as the specification states it fails for a push-class target: in PUSH1 0x00 the
  byte 0x60 is a genuine instruction at offset 0, outside any operand, and the scan
  for 0x60 returns \<open>false\<close>.
\<close>

theorem findOpcodes_push_target_counterexample:
  "0x60 \<in> set (instructions evm_deps [0x60, 0x00]) \<and>
   findOpcodes evm_deps [0x60, 0x00] 0x60 = Inr False"
proof -
  have "vm_IsPush evm_deps 0x60"
    by (simp add: evm_deps_def isPush_sample_def)
  then show ?thesis
    by (simp add: findOpcodes_instructions)
qed

section \<open>Properties of the contract-creation tracer\<close>

lemma validateAndStoreOpCode_eq:
  "validateAndStoreOpCode X t input to =
     Inr (if passes_filter X t input then recorded X t input to else t)"
proof -
  obtain b where b: "findOpcodes X input (vm_StringToOp X (OpCode (config t))) = Inr b"
    using findOpcodes_total by blast
  show ?thesis
    by (simp add: validateAndStoreOpCode_def passes_filter_def recorded_def observation_def b)
qed

lemma CaptureStart_create_eq:
  "CaptureStart X t frm to True input gas val =
     Inr (if passes_filter X t input then recorded X t input to else t)"
  by (simp add: CaptureStart_def validateAndStoreOpCode_eq)

lemma CaptureEnter_create_eq:
  assumes "interrupt t = 0" and "typ = vm_CREATE X \<or> typ = vm_CREATE2 X"
  shows "CaptureEnter X t typ frm to input gas val =
     Inr (if passes_filter X t input then recorded X t input to else t)"
  using assms by (auto simp: CaptureEnter_def validateAndStoreOpCode_eq)

lemma CaptureEnter_interrupted:
  "interrupt t \<noteq> 0 \<Longrightarrow> CaptureEnter X t typ frm to input gas val = Inr t"
  by (simp add: CaptureEnter_def word_greater_zero_iff)

lemma config_recorded [simp]: "config (recorded X t input to) = config t"
  by (simp add: recorded_def)

lemma interrupt_recorded [simp]: "interrupt (recorded X t input to) = interrupt t"
  by (simp add: recorded_def)

lemma reason_recorded [simp]: "reason (recorded X t input to) = reason t"
  by (simp add: recorded_def)

lemma passes_filter_recorded [simp]:
  "passes_filter X (recorded X t input to) input' = passes_filter X t input'"
  by (simp add: passes_filter_def)

lemma NewContractTracer_None: "NewContractTracer X None = Inr (new_contractTracer zero_config)"
  by (simp add: NewContractTracer_def new_contractTracer_def zero_config_def)

text \<open>
  After \<open>Stop\<close>, \<open>CaptureEnter\<close> and the four hooks with an empty body leave the
  whole tracer as it is, and so does \<open>CaptureStart\<close> for a frame that is not a
  creation.
\<close>

lemma guarded_hooks_after_Stop:
  "CaptureEnter X (Stop t err) typ frm to input gas val = Inr (Stop t err)"
  "CaptureStart X (Stop t err) frm to False input gas val = Inr (Stop t err)"
  "CaptureEnd (Stop t err) output gasUsed duration e = Stop t err"
  "CaptureState (Stop t err) pc op gas cost rData depth e = Stop t err"
  "CaptureFault (Stop t err) pc op gas cost depth e = Stop t err"
  "CaptureExit (Stop t err) output gasUsed e = Stop t err"
  by (simp_all add: CaptureEnter_def CaptureStart_def CaptureEnd_def CaptureState_def
      CaptureFault_def CaptureExit_def Stop_def)

text \<open>
  C1, the input at which the code departs from the claim. A tracer built without a
  configuration is stopped and then receives \<open>CaptureStart\<close> for a creation:
  \<open>CaptureStart\<close> does not consult the interruption flag, and the address of the
  creation is written into the map that the stop left empty.
\<close>

theorem CaptureStart_after_Stop_records:
  "NewContractTracer evm_deps None = Inr (new_contractTracer zero_config) \<and>
   Addrs (Stop (new_contractTracer zero_config) (Some ''execution timeout'')) = Map.empty \<and>
   CaptureStart evm_deps (Stop (new_contractTracer zero_config) (Some ''execution timeout''))
       1 2 True [0x00] 0 0 =
     Inr ((Stop (new_contractTracer zero_config) (Some ''execution timeout''))
           \<lparr>Addrs := [addrToHex evm_deps 2 \<mapsto> '''']\<rparr>) \<and>
   [addrToHex evm_deps 2 \<mapsto> ''''] \<noteq> Map.empty"
proof -
  have "passes_filter evm_deps (Stop (new_contractTracer zero_config) (Some ''execution timeout''))
      [0x00]"
    by (simp add: passes_filter_def Stop_def new_contractTracer_def zero_config_def)
  then have "CaptureStart evm_deps (Stop (new_contractTracer zero_config) (Some ''execution timeout''))
       1 2 True [0x00] 0 0 =
     Inr ((Stop (new_contractTracer zero_config) (Some ''execution timeout''))
           \<lparr>Addrs := [addrToHex evm_deps 2 \<mapsto> '''']\<rparr>)"
    by (simp add: CaptureStart_create_eq recorded_def observation_def Stop_def
        new_contractTracer_def zero_config_def)
  moreover have "Addrs (Stop (new_contractTracer zero_config) (Some ''execution timeout'')) = Map.empty"
    by (simp add: Stop_def new_contractTracer_def)
  ultimately show ?thesis
    by (simp add: NewContractTracer_None)
qed

text \<open>
  C3, as the code has it. For a creation event that reaches the tracer while the
  interruption flag is clear (\<open>CaptureStart\<close> with \<open>create\<close>, or \<open>CaptureEnter\<close> with
  CREATE or CREATE2): with the name inv nothing is recorded, whatever the input; with
  the empty name the creation is recorded unconditionally; otherwise it is recorded
  if and only if \<open>findOpcodes\<close> finds the code of the configured name in the input.
\<close>

theorem creation_recorded_by_filter_policy:
  assumes "interrupt t = 0" and "typ = vm_CREATE X \<or> typ = vm_CREATE2 X"
  shows "CaptureStart X t frm to True input gas val =
           Inr (if OpCode (config t) = ''inv'' then t
                else if OpCode (config t) = '''' then recorded X t input to
                else if findOpcodes X input (vm_StringToOp X (OpCode (config t))) = Inr True
                  then recorded X t input to
                else t) \<and>
         CaptureEnter X t typ frm to input gas val =
           CaptureStart X t frm to True input gas val"
proof -
  have "CaptureEnter X t typ frm to input gas val = CaptureStart X t frm to True input gas val"
    using assms by (simp add: CaptureEnter_create_eq CaptureStart_create_eq)
  moreover have "CaptureStart X t frm to True input gas val =
           Inr (if OpCode (config t) = ''inv'' then t
                else if OpCode (config t) = '''' then recorded X t input to
                else if findOpcodes X input (vm_StringToOp X (OpCode (config t))) = Inr True
                  then recorded X t input to
                else t)"
    by (simp add: CaptureStart_create_eq passes_filter_def)
  ultimately show ?thesis by simp
qed

text \<open>
  A tracer configured with CREATE2 and \<open>withByteCode\<close> sees a CREATE2 frame whose
  input is PUSH1 0x00, CREATE2: the creation is recorded.
\<close>

theorem creation_recorded_by_filter_policy_witness:
  "interrupt (new_contractTracer \<lparr>OpCode = ''CREATE2'', WithByteCode = True\<rparr>) = 0 \<and>
   0xf5 = vm_CREATE2 evm_deps \<and>
   CaptureEnter evm_deps (new_contractTracer \<lparr>OpCode = ''CREATE2'', WithByteCode = True\<rparr>)
       0xf5 1 2 [0x60, 0x00, 0xf5] 0 0 =
     Inr (recorded evm_deps (new_contractTracer \<lparr>OpCode = ''CREATE2'', WithByteCode = True\<rparr>)
       [0x60, 0x00, 0xf5] 2)"
proof -
  have i: "interrupt (new_contractTracer \<lparr>OpCode = ''CREATE2'', WithByteCode = True\<rparr>) = 0"
    by (simp add: new_contractTracer_def)
  have c: "0xf5 = vm_CREATE evm_deps \<or> 0xf5 = vm_CREATE2 evm_deps"
    by (simp add: evm_deps_def)
  have p: "\<not> vm_IsPush evm_deps 0xf5" "vm_StringToOp evm_deps ''CREATE2'' = 0xf5"
    by (simp_all add: evm_deps_def isPush_sample_def stringToOp_sample_def)
  have f: "findOpcodes evm_deps [0x60, 0x00, 0xf5] 0xf5 = Inr True"
    using p(1) by (simp add: findOpcodes_instructions) (simp add: evm_deps_def isPush_sample_def)
  show ?thesis
    using creation_recorded_by_filter_policy [OF i c, of 1 2 "[0x60, 0x00, 0xf5]" 0 0] i c f p
    by (simp add: new_contractTracer_def evm_deps_def)
qed

text \<open>
  C3 as the specification states it fails for \<open>CaptureEnter\<close> once the tracer is
  interrupted: with the empty name, a CREATE frame that enters after \<open>Stop\<close> is not
  recorded, the map stays empty.
\<close>

theorem creation_after_Stop_not_recorded_counterexample:
  "OpCode (config (Stop (new_contractTracer zero_config) (Some ''execution timeout''))) = '''' \<and>
   CaptureEnter evm_deps (Stop (new_contractTracer zero_config) (Some ''execution timeout''))
       (vm_CREATE evm_deps) 1 2 [0x00] 0 0 =
     Inr (Stop (new_contractTracer zero_config) (Some ''execution timeout'')) \<and>
   Addrs (Stop (new_contractTracer zero_config) (Some ''execution timeout''))
       (addrToHex evm_deps 2) = None"
  by (simp add: guarded_hooks_after_Stop) (simp add: Stop_def new_contractTracer_def zero_config_def)

text \<open>
  C4. \<open>GetResult\<close> returns the payload of the accumulated map together with the
  recorded reason as its error: after \<open>Stop\<close> with a reason the error component is
  that reason, also when creation hooks ran in between, so the result never looks
  successful; with no reason recorded the error component is \<open>nil\<close> and the payload
  is the accumulated map.
\<close>

theorem GetResult_propagates_reason:
  "GetResult (Stop t (Some e)) = (Some (Addrs t), Some e) \<and>
   (reason t = Some e \<and> CaptureStart X t frm to create input gas val = Inr t' \<longrightarrow>
      GetResult t' = (Some (Addrs t'), Some e)) \<and>
   (reason t = Some e \<and> CaptureEnter X t typ frm to input gas val = Inr t' \<longrightarrow>
      GetResult t' = (Some (Addrs t'), Some e)) \<and>
   (reason t = None \<longrightarrow> GetResult t = (Some (Addrs t), None))"
proof (intro conjI impI)
  show "GetResult (Stop t (Some e)) = (Some (Addrs t), Some e)"
    by (simp add: GetResult_def json_Marshal_def Stop_def)
next
  assume "reason t = Some e \<and> CaptureStart X t frm to create input gas val = Inr t'"
  then have "reason t' = Some e"
    by (cases create) (auto simp: CaptureStart_def validateAndStoreOpCode_eq split: if_splits)
  then show "GetResult t' = (Some (Addrs t'), Some e)"
    by (simp add: GetResult_def json_Marshal_def)
next
  assume "reason t = Some e \<and> CaptureEnter X t typ frm to input gas val = Inr t'"
  then have "reason t' = Some e"
    by (auto simp: CaptureEnter_def validateAndStoreOpCode_eq split: if_splits)
  then show "GetResult t' = (Some (Addrs t'), Some e)"
    by (simp add: GetResult_def json_Marshal_def)
next
  assume "reason t = None"
  then show "GetResult t = (Some (Addrs t), None)"
    by (simp add: GetResult_def json_Marshal_def)
qed

text \<open>
  A tracer with the empty filter records one creation, is stopped with the reason
  execution timeout, and a later CREATE frame is skipped: the result carries the reason.
\<close>

theorem GetResult_propagates_reason_witness:
  "reason (Stop (recorded evm_deps (new_contractTracer zero_config) [0x00] 2)
       (Some ''execution timeout'')) = Some ''execution timeout'' \<and>
   CaptureEnter evm_deps
       (Stop (recorded evm_deps (new_contractTracer zero_config) [0x00] 2)
          (Some ''execution timeout'')) 0xf0 2 3 [0x00] 0 0 =
     Inr (Stop (recorded evm_deps (new_contractTracer zero_config) [0x00] 2)
       (Some ''execution timeout'')) \<and>
   GetResult (Stop (recorded evm_deps (new_contractTracer zero_config) [0x00] 2)
       (Some ''execution timeout'')) =
     (Some [addrToHex evm_deps 2 \<mapsto> ''''], Some ''execution timeout'') \<and>
   CaptureStart evm_deps
       (Stop (recorded evm_deps (new_contractTracer zero_config) [0x00] 2)
          (Some ''execution timeout'')) 2 2 False [] 0 0 =
     Inr (Stop (recorded evm_deps (new_contractTracer zero_config) [0x00] 2)
       (Some ''execution timeout'')) \<and>
   reason (new_contractTracer zero_config) = None \<and>
   GetResult (new_contractTracer zero_config) = (Some Map.empty, None)"
proof -
  let ?t = "Stop (recorded evm_deps (new_contractTracer zero_config) [0x00] 2)
       (Some ''execution timeout'')"
  have r: "reason ?t = Some ''execution timeout''"
    by (simp add: Stop_def)
  have h: "CaptureEnter evm_deps ?t 0xf0 2 3 [0x00] 0 0 = Inr ?t"
    by (simp add: guarded_hooks_after_Stop)
  have a: "Addrs ?t = [addrToHex evm_deps 2 \<mapsto> '''']"
    by (simp add: Stop_def recorded_def observation_def new_contractTracer_def zero_config_def)
  have n: "reason (new_contractTracer zero_config) = None"
    "Addrs (new_contractTracer zero_config) = Map.empty"
    by (simp_all add: new_contractTracer_def)
  from GetResult_propagates_reason
    [of ?t "''execution timeout''" evm_deps 2 3 _ "[0x00]" 0 0 ?t "0xf0"] r h
  have g: "GetResult ?t = (Some (Addrs ?t), Some ''execution timeout'')"
    by blast
  have h': "CaptureStart evm_deps ?t 2 2 False [] 0 0 = Inr ?t"
    by (simp add: guarded_hooks_after_Stop)
  from GetResult_propagates_reason
    [of ?t "''execution timeout''" evm_deps 2 2 False "[]" 0 0 ?t] r h'
  have "GetResult ?t = (Some (Addrs ?t), Some ''execution timeout'')"
    by blast
  moreover note g h'
  moreover from GetResult_propagates_reason [where t = "new_contractTracer zero_config"] n
  have "GetResult (new_contractTracer zero_config) = (Some Map.empty, None)"
    by simp
  ultimately show ?thesis
    using r h a n by simp
qed

section \<open>Construction, the sentinel and the stored observations\<close>

lemma NewContractTracer_decoded:
  assumes "json_Unmarshal X raw = Inr c"
  shows "NewContractTracer X (Some raw) =
     Inr (new_contractTracer
       (if vm_StringToOp X (OpCode c) = 0 \<and> OpCode c \<noteq> ''STOP'' \<and> OpCode c \<noteq> ''''
        then c\<lparr>OpCode := ''inv''\<rparr> else c))"
  using assms by (simp add: NewContractTracer_def new_contractTracer_def Let_def)

lemma sentinel_records_nothing:
  "OpCode (config t) = ''inv'' \<Longrightarrow> validateAndStoreOpCode X t input to = Inr t"
  by (simp add: validateAndStoreOpCode_eq passes_filter_def)

text \<open>
  C6, as the code has it. \<open>NewContractTracer\<close> succeeds for an absent blob; for a
  blob it fails exactly when \<open>json.Unmarshal\<close> fails to decode the blob into the
  configuration struct, and then with that error. When the blob decodes, a name that
  is not recognised (it parses to the zero code and is neither STOP nor empty) does not
  make construction fail: the tracer is built with the name inv and the rest of the
  configuration as decoded; any other name is kept as decoded.
\<close>

theorem NewContractTracer_fails_only_in_decoding:
  "NewContractTracer X None = Inr (new_contractTracer zero_config) \<and>
   (json_Unmarshal X raw = Inl e \<longrightarrow> NewContractTracer X (Some raw) = Inl e) \<and>
   (json_Unmarshal X raw = Inr c \<longrightarrow>
      (vm_StringToOp X (OpCode c) = 0 \<and> OpCode c \<noteq> ''STOP'' \<and> OpCode c \<noteq> '''' \<longrightarrow>
         NewContractTracer X (Some raw) = Inr (new_contractTracer (c\<lparr>OpCode := ''inv''\<rparr>))) \<and>
      (\<not> (vm_StringToOp X (OpCode c) = 0 \<and> OpCode c \<noteq> ''STOP'' \<and> OpCode c \<noteq> '''') \<longrightarrow>
         NewContractTracer X (Some raw) = Inr (new_contractTracer c)))"
proof (intro conjI impI)
  show "NewContractTracer X None = Inr (new_contractTracer zero_config)"
    by (rule NewContractTracer_None)
next
  assume "json_Unmarshal X raw = Inl e"
  then show "NewContractTracer X (Some raw) = Inl e"
    by (simp add: NewContractTracer_def)
next
  assume "json_Unmarshal X raw = Inr c"
    and "vm_StringToOp X (OpCode c) = 0 \<and> OpCode c \<noteq> ''STOP'' \<and> OpCode c \<noteq> ''''"
  then show "NewContractTracer X (Some raw) = Inr (new_contractTracer (c\<lparr>OpCode := ''inv''\<rparr>))"
    by (simp add: NewContractTracer_decoded)
next
  assume "json_Unmarshal X raw = Inr c"
    and "\<not> (vm_StringToOp X (OpCode c) = 0 \<and> OpCode c \<noteq> ''STOP'' \<and> OpCode c \<noteq> '''')"
  then show "NewContractTracer X (Some raw) = Inr (new_contractTracer c)"
    using NewContractTracer_decoded [of X raw c] by auto
qed

text \<open>
  The blob naming the opcode NOSUCHOP decodes, the name parses to the zero code, and
  the tracer is built with the name inv; the blob naming CREATE2 builds a tracer with
  that name; a text that is not JSON fails with the error of the decoding.
\<close>

theorem NewContractTracer_fails_only_in_decoding_witness:
  "json_Unmarshal evm_deps ''{\"opCode\":\"NOSUCHOP\"}'' =
     Inr \<lparr>OpCode = ''NOSUCHOP'', WithByteCode = False\<rparr> \<and>
   vm_StringToOp evm_deps ''NOSUCHOP'' = 0 \<and>
   NewContractTracer evm_deps (Some ''{\"opCode\":\"NOSUCHOP\"}'') =
     Inr (new_contractTracer \<lparr>OpCode = ''inv'', WithByteCode = False\<rparr>) \<and>
   json_Unmarshal evm_deps ''{\"opCode\":\"CREATE2\",\"withByteCode\":true}'' =
     Inr \<lparr>OpCode = ''CREATE2'', WithByteCode = True\<rparr> \<and>
   vm_StringToOp evm_deps ''CREATE2'' = 0xf5 \<and>
   NewContractTracer evm_deps (Some ''{\"opCode\":\"CREATE2\",\"withByteCode\":true}'') =
     Inr (new_contractTracer \<lparr>OpCode = ''CREATE2'', WithByteCode = True\<rparr>) \<and>
   json_Unmarshal evm_deps ''{opCode'' = Inl ''invalid character in configuration'' \<and>
   NewContractTracer evm_deps (Some ''{opCode'') = Inl ''invalid character in configuration''"
proof -
  have u1: "json_Unmarshal evm_deps ''{\"opCode\":\"NOSUCHOP\"}'' =
     Inr \<lparr>OpCode = ''NOSUCHOP'', WithByteCode = False\<rparr>"
    by (simp add: evm_deps_def unmarshal_sample_def)
  have z1: "vm_StringToOp evm_deps ''NOSUCHOP'' = 0"
    by (simp add: evm_deps_def stringToOp_sample_def)
  have u2: "json_Unmarshal evm_deps ''{\"opCode\":\"CREATE2\",\"withByteCode\":true}'' =
     Inr \<lparr>OpCode = ''CREATE2'', WithByteCode = True\<rparr>"
    by (simp add: evm_deps_def unmarshal_sample_def)
  have z2: "vm_StringToOp evm_deps ''CREATE2'' = 0xf5"
    by (simp add: evm_deps_def stringToOp_sample_def)
  have u3: "json_Unmarshal evm_deps ''{opCode'' = Inl ''invalid character in configuration''"
    by (simp add: evm_deps_def unmarshal_sample_def)
  from NewContractTracer_fails_only_in_decoding
    [of evm_deps "''{\"opCode\":\"NOSUCHOP\"}''" _
      "\<lparr>OpCode = ''NOSUCHOP'', WithByteCode = False\<rparr>"] u1 z1
  have r1: "NewContractTracer evm_deps (Some ''{\"opCode\":\"NOSUCHOP\"}'') =
     Inr (new_contractTracer \<lparr>OpCode = ''inv'', WithByteCode = False\<rparr>)"
    by simp
  from NewContractTracer_fails_only_in_decoding
    [of evm_deps "''{\"opCode\":\"CREATE2\",\"withByteCode\":true}''" _
      "\<lparr>OpCode = ''CREATE2'', WithByteCode = True\<rparr>"] u2 z2
  have r2: "NewContractTracer evm_deps (Some ''{\"opCode\":\"CREATE2\",\"withByteCode\":true}'') =
     Inr (new_contractTracer \<lparr>OpCode = ''CREATE2'', WithByteCode = True\<rparr>)"
    by simp
  from NewContractTracer_fails_only_in_decoding
    [of evm_deps "''{opCode''" "''invalid character in configuration''"] u3
  have r3: "NewContractTracer evm_deps (Some ''{opCode'') = Inl ''invalid character in configuration''"
    by blast
  from u1 z1 r1 u2 z2 r2 u3 r3 show ?thesis by blast
qed

text \<open>
  C6 as the specification states it fails for a blob that is valid JSON and does not
  decode into the configuration struct. The text of the empty array, and the text of
  the object whose \<open>opCode\<close> is the number 5, are valid JSON; on both
  \<open>json.Unmarshal\<close> returns an error and \<open>NewContractTracer\<close> fails with it.
\<close>

theorem NewContractTracer_valid_json_counterexample:
  "render_json (JArray []) = ''[]'' \<and>
   NewContractTracer evm_deps (Some ''[]'') =
     Inl ''json: cannot unmarshal array into Go value of type native.contractTracerConfig'' \<and>
   render_json (JObject [(''opCode'', JNumber 5)]) = ''{\"opCode\":5}'' \<and>
   NewContractTracer evm_deps (Some ''{\"opCode\":5}'') =
     Inl (''json: cannot unmarshal number into Go struct field '' @
          ''contractTracerConfig.opCode of type string'')"
proof -
  have "render_json (JArray []) = ''[]''"
    by simp
  moreover have "render_json (JObject [(''opCode'', JNumber 5)]) = ''{\"opCode\":5}''"
    by (simp add: quote_def escape_char_def decimal.simps hexdigit_def)
  moreover have "NewContractTracer evm_deps (Some ''[]'') =
     Inl ''json: cannot unmarshal array into Go value of type native.contractTracerConfig''"
    by (simp add: NewContractTracer_def evm_deps_def unmarshal_sample_def)
  moreover have "NewContractTracer evm_deps (Some ''{\"opCode\":5}'') =
     Inl (''json: cannot unmarshal number into Go struct field '' @
          ''contractTracerConfig.opCode of type string'')"
    by (simp add: NewContractTracer_def evm_deps_def unmarshal_sample_def)
  ultimately show ?thesis by blast
qed
text \<open>
  C7. Whenever a creation passes the filter, \<open>validateAndStoreOpCode\<close> stores under
  the key \<open>addrToHex\<close> of the deployed address the empty string (without
  \<open>WithByteCode\<close>) or \<open>bytesToHex\<close> of the whole input (with it), and leaves every
  other key as it was. A later creation that passes the filter at the same address
  overwrites that entry: the map then holds the later observation only, and has the
  same keys as after the first.
\<close>

theorem creation_stored_under_address_and_overwritten:
  assumes "passes_filter X t input" and "passes_filter X t input'"
  shows "\<exists>t1 t2.
     validateAndStoreOpCode X t input to = Inr t1 \<and>
     Addrs t1 = (Addrs t)(addrToHex X to \<mapsto>
                   (if WithByteCode (config t) then bytesToHex X input else '''')) \<and>
     validateAndStoreOpCode X t1 input' to = Inr t2 \<and>
     Addrs t2 = (Addrs t)(addrToHex X to \<mapsto>
                   (if WithByteCode (config t) then bytesToHex X input' else '''')) \<and>
     dom (Addrs t2) = dom (Addrs t1)"
proof -
  let ?t1 = "recorded X t input to"
  let ?t2 = "recorded X ?t1 input' to"
  have 1: "validateAndStoreOpCode X t input to = Inr ?t1"
    using assms(1) by (simp add: validateAndStoreOpCode_eq)
  have 2: "validateAndStoreOpCode X ?t1 input' to = Inr ?t2"
    using assms(2) by (simp add: validateAndStoreOpCode_eq)
  have a1: "Addrs ?t1 = (Addrs t)(addrToHex X to \<mapsto>
                   (if WithByteCode (config t) then bytesToHex X input else ''''))"
    by (simp add: recorded_def observation_def)
  have a2: "Addrs ?t2 = (Addrs t)(addrToHex X to \<mapsto>
                   (if WithByteCode (config t) then bytesToHex X input' else ''''))"
    by (simp add: recorded_def observation_def)
  have "dom (Addrs ?t2) = dom (Addrs ?t1)"
    unfolding a1 a2 by simp
  with 1 2 a1 a2 show ?thesis by blast
qed

text \<open>
  A tracer configured with CREATE2 and \<open>withByteCode\<close> records the bytecode CREATE2
  and then the bytecode PUSH1 0x00, CREATE2 for the same address 0x...02: one entry is
  left, with the hex of the second.
\<close>

theorem creation_stored_under_address_and_overwritten_witness:
  "passes_filter evm_deps (new_contractTracer \<lparr>OpCode = ''CREATE2'', WithByteCode = True\<rparr>) [0xf5] \<and>
   passes_filter evm_deps (new_contractTracer \<lparr>OpCode = ''CREATE2'', WithByteCode = True\<rparr>)
     [0x60, 0x00, 0xf5] \<and>
   (\<exists>t1 t2.
     validateAndStoreOpCode evm_deps
       (new_contractTracer \<lparr>OpCode = ''CREATE2'', WithByteCode = True\<rparr>) [0xf5] 2 = Inr t1 \<and>
     Addrs t1 = [addrToHex evm_deps 2 \<mapsto> ''0xf5''] \<and>
     validateAndStoreOpCode evm_deps t1 [0x60, 0x00, 0xf5] 2 = Inr t2 \<and>
     Addrs t2 = [addrToHex evm_deps 2 \<mapsto> ''0x6000f5'']) \<and>
   addrToHex evm_deps 2 = ''0x0000000000000000000000000000000000000002''"
proof -
  let ?t = "new_contractTracer \<lparr>OpCode = ''CREATE2'', WithByteCode = True\<rparr>"
  have p: "\<not> vm_IsPush evm_deps 0xf5" "vm_StringToOp evm_deps ''CREATE2'' = 0xf5"
    "vm_IsPush evm_deps 0x60"
    by (simp_all add: evm_deps_def isPush_sample_def stringToOp_sample_def)
  have p1: "passes_filter evm_deps ?t [0xf5]"
    using p by (simp add: passes_filter_def new_contractTracer_def findOpcodes_instructions)
  have p2: "passes_filter evm_deps ?t [0x60, 0x00, 0xf5]"
    using p by (simp add: passes_filter_def new_contractTracer_def findOpcodes_instructions)
  have h: "bytesToHex evm_deps [0xf5] = ''0xf5''"
    "bytesToHex evm_deps [0x60, 0x00, 0xf5] = ''0x6000f5''"
    by (simp_all add: evm_deps_def bytesToHex_sample_def hexdigit_def)
  have c: "WithByteCode (config ?t)" "Addrs ?t = Map.empty"
    by (simp_all add: new_contractTracer_def)
  from creation_stored_under_address_and_overwritten [OF p1 p2, of 2]
  obtain t1 t2 where
    "validateAndStoreOpCode evm_deps ?t [0xf5] 2 = Inr t1"
    "Addrs t1 = (Addrs ?t)(addrToHex evm_deps 2 \<mapsto>
       (if WithByteCode (config ?t) then bytesToHex evm_deps [0xf5] else ''''))"
    "validateAndStoreOpCode evm_deps t1 [0x60, 0x00, 0xf5] 2 = Inr t2"
    "Addrs t2 = (Addrs ?t)(addrToHex evm_deps 2 \<mapsto>
       (if WithByteCode (config ?t) then bytesToHex evm_deps [0x60, 0x00, 0xf5] else ''''))"
    by blast
  then have "validateAndStoreOpCode evm_deps ?t [0xf5] 2 = Inr t1 \<and>
     Addrs t1 = [addrToHex evm_deps 2 \<mapsto> ''0xf5''] \<and>
     validateAndStoreOpCode evm_deps t1 [0x60, 0x00, 0xf5] 2 = Inr t2 \<and>
     Addrs t2 = [addrToHex evm_deps 2 \<mapsto> ''0x6000f5'']"
    using c by (simp add: h)
  moreover have "addrToHex evm_deps 2 = ''0x0000000000000000000000000000000000000002''"
    by (simp add: evm_deps_def addrToHex_sample_def hexdigit_def upt_rec)
  ultimately show ?thesis
    using p1 p2 by blast
qed

text \<open>
  C10. The name STOP is kept by \<open>NewContractTracer\<close> and not replaced by inv. With
  STOP parsing to the zero code, and the zero code not a push-class instruction, a
  creation whose bytecode has 0x00 as a genuine instruction is recorded by the tracer
  so built, at \<open>CaptureStart\<close> and at \<open>CaptureEnter\<close>. Every other non-empty name
  that parses to the zero code is replaced by inv, and the tracer so built records
  nothing for any creation. (The empty name is the case of no filter.)
\<close>

theorem STOP_filter_accepted_unrecognized_rejected:
  assumes "json_Unmarshal X raw = Inr c"
  shows "(OpCode c = ''STOP'' \<longrightarrow>
           (\<exists>t. NewContractTracer X (Some raw) = Inr t \<and> OpCode (config t) = ''STOP'' \<and>
              (vm_StringToOp X ''STOP'' = 0 \<and> \<not> vm_IsPush X 0 \<and>
               0 \<in> set (instructions X input) \<and> (typ = vm_CREATE X \<or> typ = vm_CREATE2 X) \<longrightarrow>
                 CaptureStart X t frm to True input gas val = Inr (recorded X t input to) \<and>
                 CaptureEnter X t typ frm to input gas val = Inr (recorded X t input to)))) \<and>
         (OpCode c \<noteq> ''STOP'' \<and> OpCode c \<noteq> '''' \<and> vm_StringToOp X (OpCode c) = 0 \<longrightarrow>
           (\<exists>t. NewContractTracer X (Some raw) = Inr t \<and> OpCode (config t) = ''inv'' \<and>
              CaptureStart X t frm to True input gas val = Inr t \<and>
              CaptureEnter X t typ frm to input gas val = Inr t))"
proof (intro conjI impI)
  assume s: "OpCode c = ''STOP''"
  let ?t = "new_contractTracer c"
  have n: "NewContractTracer X (Some raw) = Inr ?t"
    using assms s by (simp add: NewContractTracer_decoded)
  have o: "OpCode (config ?t) = ''STOP''" and i: "interrupt ?t = 0"
    using s by (simp_all add: new_contractTracer_def)
  have "CaptureStart X ?t frm to True input gas val = Inr (recorded X ?t input to) \<and>
        CaptureEnter X ?t typ frm to input gas val = Inr (recorded X ?t input to)"
    if h: "vm_StringToOp X ''STOP'' = 0 \<and> \<not> vm_IsPush X 0 \<and>
           0 \<in> set (instructions X input) \<and> (typ = vm_CREATE X \<or> typ = vm_CREATE2 X)"
  proof -
    have "passes_filter X ?t input"
      using h o by (simp add: passes_filter_def findOpcodes_instructions)
    then show ?thesis
      using h i by (simp add: CaptureStart_create_eq CaptureEnter_create_eq)
  qed
  with n o show "\<exists>t. NewContractTracer X (Some raw) = Inr t \<and> OpCode (config t) = ''STOP'' \<and>
              (vm_StringToOp X ''STOP'' = 0 \<and> \<not> vm_IsPush X 0 \<and>
               0 \<in> set (instructions X input) \<and> (typ = vm_CREATE X \<or> typ = vm_CREATE2 X) \<longrightarrow>
                 CaptureStart X t frm to True input gas val = Inr (recorded X t input to) \<and>
                 CaptureEnter X t typ frm to input gas val = Inr (recorded X t input to))"
    by blast
next
  assume u: "OpCode c \<noteq> ''STOP'' \<and> OpCode c \<noteq> '''' \<and> vm_StringToOp X (OpCode c) = 0"
  let ?t = "new_contractTracer (c\<lparr>OpCode := ''inv''\<rparr>)"
  have n: "NewContractTracer X (Some raw) = Inr ?t"
    using assms u by (simp add: NewContractTracer_decoded)
  have o: "OpCode (config ?t) = ''inv''"
    by (simp add: new_contractTracer_def)
  have "CaptureStart X ?t frm to True input gas val = Inr ?t"
    using o by (simp add: CaptureStart_def sentinel_records_nothing)
  moreover have "CaptureEnter X ?t typ frm to input gas val = Inr ?t"
    using o by (simp add: CaptureEnter_def sentinel_records_nothing)
  ultimately show "\<exists>t. NewContractTracer X (Some raw) = Inr t \<and> OpCode (config t) = ''inv'' \<and>
              CaptureStart X t frm to True input gas val = Inr t \<and>
              CaptureEnter X t typ frm to input gas val = Inr t"
    using n o by blast
qed

text \<open>
  The blob naming STOP builds a tracer that records the creation of PUSH1 0x01, STOP;
  the blob naming NOSUCHOP builds a tracer that records nothing for the same creation.
\<close>

theorem STOP_filter_accepted_unrecognized_rejected_witness:
  "json_Unmarshal evm_deps ''{\"opCode\":\"STOP\"}'' =
     Inr \<lparr>OpCode = ''STOP'', WithByteCode = False\<rparr> \<and>
   vm_StringToOp evm_deps ''STOP'' = 0 \<and> \<not> vm_IsPush evm_deps 0 \<and>
   0 \<in> set (instructions evm_deps [0x60, 0x01, 0x00]) \<and> 0xf0 = vm_CREATE evm_deps \<and>
   (\<exists>t. NewContractTracer evm_deps (Some ''{\"opCode\":\"STOP\"}'') = Inr t \<and>
        OpCode (config t) = ''STOP'' \<and>
        CaptureEnter evm_deps t 0xf0 1 2 [0x60, 0x01, 0x00] 0 0 =
          Inr (recorded evm_deps t [0x60, 0x01, 0x00] 2)) \<and>
   json_Unmarshal evm_deps ''{\"opCode\":\"NOSUCHOP\"}'' =
     Inr \<lparr>OpCode = ''NOSUCHOP'', WithByteCode = False\<rparr> \<and>
   vm_StringToOp evm_deps ''NOSUCHOP'' = 0 \<and>
   (\<exists>t. NewContractTracer evm_deps (Some ''{\"opCode\":\"NOSUCHOP\"}'') = Inr t \<and>
        OpCode (config t) = ''inv'' \<and>
        CaptureEnter evm_deps t 0xf0 1 2 [0x60, 0x01, 0x00] 0 0 = Inr t)"
proof -
  have u1: "json_Unmarshal evm_deps ''{\"opCode\":\"STOP\"}'' =
     Inr \<lparr>OpCode = ''STOP'', WithByteCode = False\<rparr>"
    by (simp add: evm_deps_def unmarshal_sample_def)
  have u2: "json_Unmarshal evm_deps ''{\"opCode\":\"NOSUCHOP\"}'' =
     Inr \<lparr>OpCode = ''NOSUCHOP'', WithByteCode = False\<rparr>"
    by (simp add: evm_deps_def unmarshal_sample_def)
  have z: "vm_StringToOp evm_deps ''STOP'' = 0" "vm_StringToOp evm_deps ''NOSUCHOP'' = 0"
    by (simp_all add: evm_deps_def stringToOp_sample_def)
  have p: "\<not> vm_IsPush evm_deps 0" "0xf0 = vm_CREATE evm_deps"
    by (simp_all add: evm_deps_def isPush_sample_def)
  have i: "0 \<in> set (instructions evm_deps [0x60, 0x01, 0x00])"
    by (simp add: evm_deps_def isPush_sample_def)
  from STOP_filter_accepted_unrecognized_rejected
    [OF u1, of "[0x60, 0x01, 0x00]" "0xf0" 1 2 0 0] z p i
  have a: "\<exists>t. NewContractTracer evm_deps (Some ''{\"opCode\":\"STOP\"}'') = Inr t \<and>
        OpCode (config t) = ''STOP'' \<and>
        CaptureEnter evm_deps t 0xf0 1 2 [0x60, 0x01, 0x00] 0 0 =
          Inr (recorded evm_deps t [0x60, 0x01, 0x00] 2)"
    by auto
  from STOP_filter_accepted_unrecognized_rejected
    [OF u2, of "[0x60, 0x01, 0x00]" "0xf0" 1 2 0 0] z
  have b: "\<exists>t. NewContractTracer evm_deps (Some ''{\"opCode\":\"NOSUCHOP\"}'') = Inr t \<and>
        OpCode (config t) = ''inv'' \<and>
        CaptureEnter evm_deps t 0xf0 1 2 [0x60, 0x01, 0x00] 0 0 = Inr t"
    by auto
  from u1 u2 z p i a b show ?thesis by blast
qed

section \<open>Properties of the gas-estimation engine\<close>

lemma search_converged: "upper - lower \<le> 1 \<Longrightarrow> search run lower upper = Inr upper"
  by (subst search.simps) simp

lemma search_error:
  "search run lower upper = Inl err \<Longrightarrow>
     \<exists>g c. lower < g \<and> g < upper \<and> run g = Failed c \<and> err = AlwaysFailing c"
proof (induction run lower upper rule: search.induct)
  case (1 run lower upper)
  let ?c = "(lower + upper) div 2"
  from "1.prems" have far: "\<not> upper - lower \<le> 1"
    by (auto simp: search_converged)
  then have mid: "lower < ?c" "?c < upper" by linarith+
  show ?case
  proof (cases "run ?c")
    case Success
    with far "1.prems" have "search run lower ?c = Inl err"
      by (subst (asm) search.simps) (simp add: Let_def)
    from "1.IH"(1) [OF far refl Success this]
    obtain g c where g: "lower < g" "g < ?c" "run g = Failed c" "err = AlwaysFailing c"
      by blast
    from g(2) mid(2) have "g < upper" by (rule less_trans)
    with g show ?thesis by blast
  next
    case OutOfGas
    with far "1.prems" have "search run ?c upper = Inl err"
      by (subst (asm) search.simps) (simp add: Let_def)
    from "1.IH"(2) [OF far refl OutOfGas this]
    obtain g c where g: "?c < g" "g < upper" "run g = Failed c" "err = AlwaysFailing c"
      by blast
    from mid(1) g(1) have "lower < g" by (rule less_trans)
    with g show ?thesis by blast
  next
    case (Failed c)
    with far "1.prems" have "err = AlwaysFailing c"
      by (subst (asm) search.simps) (simp add: Let_def)
    with Failed mid show ?thesis by blast
  qed
qed


text \<open>
  Step 5 of the engine asks of the shortcut the value that the full search would give.
  It does give it, for every call whose success is monotonic in gas and every positive
  intrinsic floor: when all the gas values above the lower bound succeed, the search
  comes down to the value just above the lower bound, which is the floor.
\<close>

lemma search_all_succeed:
  "\<forall>g. lower < g \<longrightarrow> run g = Success \<Longrightarrow> lower < upper \<Longrightarrow>
     search run lower upper = Inr (Suc lower)"
proof (induction run lower upper rule: search.induct)
  case (1 run lower upper)
  let ?c = "(lower + upper) div 2"
  show ?case
  proof (cases "upper - lower \<le> 1")
    case True
    with "1.prems"(2) have "upper = Suc lower" by linarith
    with True show ?thesis
      by (simp add: search_converged)
  next
    case far: False
    then have mid: "lower < ?c" by linarith
    with "1.prems"(1) have c: "run ?c = Success" by blast
    from far c have "search run lower upper = search run lower ?c"
      by (subst search.simps) (simp add: Let_def)
    with "1.IH"(1) [OF far refl c "1.prems"(1) mid] show ?thesis
      by simp
  qed
qed

lemma estimate_shortcut_is_search:
  assumes "monotonic_in_gas run" and "0 < floor"
  shows "estimate run floor cap ceiling True = estimate run floor cap ceiling False"
proof (cases "run (upper_bound cap ceiling) = Success \<and> floor \<le> upper_bound cap ceiling \<and>
    run floor = Success")
  case True
  have "\<forall>g. floor - 1 < g \<longrightarrow> run g = Success"
  proof (intro allI impI)
    fix g
    assume "floor - 1 < g"
    then have "floor \<le> g" by linarith
    with assms(1) True show "run g = Success"
      unfolding monotonic_in_gas_def by blast
  qed
  moreover from assms(2) True have "floor - 1 < upper_bound cap ceiling" by linarith
  ultimately have "search run (floor - 1) (upper_bound cap ceiling) = Inr (Suc (floor - 1))"
    by (rule search_all_succeed)
  with assms(2) True show ?thesis
    by (simp add: estimate_def Let_def)
next
  case False
  then show ?thesis
    by (auto simp: estimate_def Let_def split: outcome.splits)
qed








subsection \<open>The texts of the numbers in the messages\<close>

lemma hexval_hexdigit: "d < 16 \<Longrightarrow> hexval (hexdigit d) = d"
proof -
  assume "d < 16"
  then have "d \<in> set [0..<16]" by simp
  then show ?thesis
    by (auto simp: upt_rec hexdigit_def hexval_def)
qed

lemma hexdigit_decimal: "d < 10 \<Longrightarrow> hexdigit d \<in> set ''0123456789''"
proof -
  assume "d < 10"
  then have "d \<in> set [0..<10]" by simp
  then show ?thesis
    by (auto simp: upt_rec hexdigit_def)
qed

lemma read_decimal_snoc: "read_decimal (s @ [c]) = 10 * read_decimal s + hexval c"
  by (simp add: read_decimal_def)

lemma read_decimal_decimal: "read_decimal (decimal n) = n"
proof (induction n rule: decimal.induct)
  case (1 n)
  show ?case
  proof (cases "n < 10")
    case True
    then show ?thesis
      by (subst decimal.simps) (simp add: read_decimal_def hexval_hexdigit)
  next
    case False
    have "n mod 10 < 16" by linarith
    with False "1.IH" show ?thesis
      by (subst decimal.simps) (simp add: read_decimal_snoc hexval_hexdigit)
  qed
qed

lemma decimal_digits: "c \<in> set (decimal n) \<Longrightarrow> c \<in> set ''0123456789''"
proof (induction n rule: decimal.induct)
  case (1 n)
  show ?case
  proof (cases "n < 10")
    case True
    with "1.prems" have "c = hexdigit n"
      by (subst (asm) decimal.simps) simp
    with True show ?thesis using hexdigit_decimal by blast
  next
    case False
    with "1.prems" have "c \<in> set (decimal (n div 10)) \<or> c = hexdigit (n mod 10)"
      by (subst (asm) decimal.simps) auto
    moreover have "n mod 10 < 10" by simp
    ultimately show ?thesis
      using "1.IH" [OF False] hexdigit_decimal by blast
  qed
qed

lemma decimal_nonempty: "decimal n \<noteq> []"
  by (subst decimal.simps) simp

lemma decimal_no_leading_zero: "n \<noteq> 0 \<Longrightarrow> hd (decimal n) \<noteq> CHR ''0''"
proof (induction n rule: decimal.induct)
  case (1 n)
  show ?case
  proof (cases "n < 10")
    case True
    have "hexval (hexdigit n) = n" using True by (simp add: hexval_hexdigit)
    moreover have "hexval CHR ''0'' = 0" by (simp add: hexval_def)
    ultimately have "hexdigit n \<noteq> CHR ''0''" using "1.prems" by auto
    with True show ?thesis by (subst decimal.simps) simp
  next
    case False
    then have "n div 10 \<noteq> 0" by simp
    from "1.IH" [OF False this] False show ?thesis
      by (subst decimal.simps) (simp add: decimal_nonempty)
  qed
qed

lemma hex2_denotes: "length (hex2 b) = 2 \<and> read_hex (hex2 b) = unat b"
proof -
  have "unat b < 256" using unsigned_less [of b] by simp
  then have "unat b div 16 < 16" by simp
  moreover have "hexdigit (unat b) = hexdigit (unat b mod 16)" by (simp add: hexdigit_def)
  moreover have "unat b mod 16 < 16" by simp
  ultimately show ?thesis
    by (simp add: hex2_def read_hex_def hexval_hexdigit)
qed


lemma hexdigit_hex: "hexdigit d \<in> set ''0123456789abcdef''"
proof -
  have "d mod 16 \<in> set [0..<16]" by simp
  moreover have "hexdigit d = hexdigit (d mod 16)" by (simp add: hexdigit_def)
  ultimately show ?thesis
    by (auto simp: upt_rec hexdigit_def)
qed

lemma hex2_digits: "ch \<in> set (hex2 b) \<Longrightarrow> ch \<in> set ''0123456789abcdef''"
  using hexdigit_hex [of "unat b div 16"] hexdigit_hex [of "unat b"]
  by (auto simp: hex2_def)

lemma decimal_zero: "decimal 0 = ''0''"
  by (simp add: decimal.simps hexdigit_def)

subsection \<open>The messages of a failed estimation\<close>

lemma estimate_at_failed_probe:
  "run (upper_bound cap ceiling) = OutOfGas \<Longrightarrow>
     estimate run floor cap ceiling plain = Inl (ExceedsAllowance (upper_bound cap ceiling))"
  "run (upper_bound cap ceiling) = Failed c \<Longrightarrow>
     estimate run floor cap ceiling plain = Inl (AlwaysFailing c)"
  by (simp_all add: estimate_def Let_def)

lemma estimate_error:
  assumes "estimate run floor cap ceiling plain = Inl err"
  shows "(run (upper_bound cap ceiling) = OutOfGas \<and>
          err = ExceedsAllowance (upper_bound cap ceiling)) \<or>
         (\<exists>g c. run g = Failed c \<and> err = AlwaysFailing c)"
proof (cases "run (upper_bound cap ceiling)")
  case Success
  with assms have "search run (floor - 1) (upper_bound cap ceiling) = Inl err"
    by (simp add: estimate_def Let_def split: if_splits)
  from search_error [OF this] show ?thesis
    by blast
next
  case OutOfGas
  with assms show ?thesis
    by (simp add: estimate_at_failed_probe(1))
next
  case (Failed c)
  with assms have "err = AlwaysFailing c"
    by (simp add: estimate_at_failed_probe(2))
  with Failed show ?thesis
    by blast
qed

lemma search_sound:
  "search run lower upper = Inr m \<Longrightarrow> run upper = Success \<Longrightarrow> m \<le> upper \<and> run m = Success"
proof (induction run lower upper rule: search.induct)
  case (1 run lower upper)
  let ?c = "(lower + upper) div 2"
  show ?case
  proof (cases "upper - lower \<le> 1")
    case True
    with "1.prems" show ?thesis
      by (simp add: search_converged)
  next
    case far: False
    then have mid: "?c < upper" by linarith
    show ?thesis
    proof (cases "run ?c")
      case Success
      with far "1.prems"(1) have "search run lower ?c = Inr m"
        by (subst (asm) search.simps) (simp add: Let_def)
      from "1.IH"(1) [OF far refl Success this Success] mid show ?thesis
        by simp
    next
      case OutOfGas
      with far "1.prems"(1) have "search run ?c upper = Inr m"
        by (subst (asm) search.simps) (simp add: Let_def)
      from "1.IH"(2) [OF far refl OutOfGas this "1.prems"(2)] show ?thesis .
    next
      case (Failed c)
      with far "1.prems"(1) show ?thesis
        by (subst (asm) search.simps) (simp add: Let_def)
    qed
  qed
qed

lemma estimate_sound:
  assumes "estimate run floor cap ceiling plain = Inr m"
  shows "m \<le> upper_bound cap ceiling \<and> run m = Success"
proof (cases "run (upper_bound cap ceiling)")
  case Success
  show ?thesis
  proof (cases "plain \<and> floor \<le> upper_bound cap ceiling \<and> run floor = Success")
    case True
    with assms Success have "m = floor"
      by (simp add: estimate_def Let_def)
    with True show ?thesis by simp
  next
    case False
    with assms Success have "search run (floor - 1) (upper_bound cap ceiling) = Inr m"
      by (auto simp: estimate_def Let_def)
    from search_sound [OF this Success] show ?thesis .
  qed
next
  case OutOfGas
  with assms show ?thesis
    by (simp add: estimate_at_failed_probe(1))
next
  case (Failed c)
  with assms show ?thesis
    by (simp add: estimate_at_failed_probe(2))
qed

text \<open>
  C8. When the estimation fails, the message of its error is the text of the
  classification, for every call shape. A call that runs out of gas at the upper bound
  gives gas required exceeds allowance with the bound in parentheses: the caller's cap
  when one is given and positive, else the ceiling, written as the decimal numeral that
  denotes it (decimal digits only, no leading zero, 0 for zero). A call that fails at
  the upper bound for a reason other than gas gives always failing transaction with the
  cause in parentheses: execution reverted, followed by the decoded reason in
  parentheses when there is one; for an invalid instruction, invalid opcode with the
  two hexadecimal digits of the instruction code; otherwise the text of the failure.
  Every error of the engine is one of these: out of gas at the upper bound, or the
  failure of a probe for a reason other than gas, with the message of that failure.
  And when the engine returns an estimate instead, it is a gas value within the upper
  bound at which the call succeeds.
\<close>

theorem estimate_error_messages:
  "(cap = Some k \<and> 0 < k \<and> run k = OutOfGas \<longrightarrow>
      map_sum error_message id (estimate run floor cap ceiling plain) =
        Inl (''gas required exceeds allowance ('' @ decimal k @ '')'')) \<and>
   ((cap = None \<or> cap = Some 0) \<and> run ceiling = OutOfGas \<longrightarrow>
      map_sum error_message id (estimate run floor cap ceiling plain) =
        Inl (''gas required exceeds allowance ('' @ decimal ceiling @ '')'')) \<and>
   (read_decimal (decimal n) = n \<and> decimal n \<noteq> [] \<and> decimal 0 = ''0'' \<and>
    (\<forall>ch\<in>set (decimal n). ch \<in> set ''0123456789'') \<and>
    (n \<noteq> 0 \<longrightarrow> hd (decimal n) \<noteq> CHR ''0'')) \<and>
   (run (upper_bound cap ceiling) = Failed (Reverted None) \<longrightarrow>
      map_sum error_message id (estimate run floor cap ceiling plain) =
        Inl ''always failing transaction (execution reverted)'') \<and>
   (run (upper_bound cap ceiling) = Failed (Reverted (Some r)) \<longrightarrow>
      map_sum error_message id (estimate run floor cap ceiling plain) =
        Inl (''always failing transaction (execution reverted) ('' @ r @ '')'')) \<and>
   (run (upper_bound cap ceiling) = Failed (InvalidInstruction b) \<longrightarrow>
      map_sum error_message id (estimate run floor cap ceiling plain) =
        Inl (''always failing transaction (invalid opcode: opcode 0x'' @ hex2 b @
             '' not defined)'')) \<and>
   (length (hex2 b) = 2 \<and> read_hex (hex2 b) = unat b \<and>
    (\<forall>ch\<in>set (hex2 b). ch \<in> set ''0123456789abcdef'')) \<and>
   (run (upper_bound cap ceiling) = Failed (ExecutionFailure s) \<longrightarrow>
      map_sum error_message id (estimate run floor cap ceiling plain) =
        Inl (''always failing transaction ('' @ s @ '')'')) \<and>
   (estimate run floor cap ceiling plain = Inl err \<longrightarrow>
      (run (upper_bound cap ceiling) = OutOfGas \<and>
       error_message err =
         ''gas required exceeds allowance ('' @ decimal (upper_bound cap ceiling) @ '')'') \<or>
      (\<exists>g c. run g = Failed c \<and>
         error_message err =
           (case c of
              Reverted None \<Rightarrow> ''always failing transaction (execution reverted)''
            | Reverted (Some r') \<Rightarrow>
                ''always failing transaction (execution reverted) ('' @ r' @ '')''
            | InvalidInstruction b' \<Rightarrow>
                ''always failing transaction (invalid opcode: opcode 0x'' @ hex2 b' @
                '' not defined)''
            | ExecutionFailure s' \<Rightarrow> ''always failing transaction ('' @ s' @ '')''))) \<and>
   (estimate run floor cap ceiling plain = Inr m \<longrightarrow>
      m \<le> upper_bound cap ceiling \<and> run m = Success)"
proof -
  let ?u = "upper_bound cap ceiling"
  let ?msg = "map_sum error_message id (estimate run floor cap ceiling plain)"
  have 1: "?msg = Inl (''gas required exceeds allowance ('' @ decimal k @ '')'')"
    if "cap = Some k \<and> 0 < k \<and> run k = OutOfGas"
  proof -
    from that have "?u = k" and "run ?u = OutOfGas"
      by (simp_all add: upper_bound_def)
    then show ?thesis by (simp add: estimate_at_failed_probe(1))
  qed
  have 2: "?msg = Inl (''gas required exceeds allowance ('' @ decimal ceiling @ '')'')"
    if "(cap = None \<or> cap = Some 0) \<and> run ceiling = OutOfGas"
  proof -
    from that have "?u = ceiling" and "run ?u = OutOfGas"
      by (auto simp: upper_bound_def)
    then show ?thesis by (simp add: estimate_at_failed_probe(1))
  qed
  have 3: "read_decimal (decimal n) = n \<and> decimal n \<noteq> [] \<and> decimal 0 = ''0'' \<and>
    (\<forall>ch\<in>set (decimal n). ch \<in> set ''0123456789'') \<and>
    (n \<noteq> 0 \<longrightarrow> hd (decimal n) \<noteq> CHR ''0'')"
    using read_decimal_decimal decimal_nonempty decimal_zero decimal_digits
      decimal_no_leading_zero
    by blast
  have 4: "?msg = Inl ''always failing transaction (execution reverted)''"
    if "run ?u = Failed (Reverted None)"
    using that by (simp add: estimate_at_failed_probe(2))
  have 5: "?msg = Inl (''always failing transaction (execution reverted) ('' @ r @ '')'')"
    if "run ?u = Failed (Reverted (Some r))"
    using that by (simp add: estimate_at_failed_probe(2))
  have 6: "?msg = Inl (''always failing transaction (invalid opcode: opcode 0x'' @ hex2 b @
             '' not defined)'')"
    if "run ?u = Failed (InvalidInstruction b)"
    using that by (simp add: estimate_at_failed_probe(2))
  have 7: "length (hex2 b) = 2 \<and> read_hex (hex2 b) = unat b \<and>
    (\<forall>ch\<in>set (hex2 b). ch \<in> set ''0123456789abcdef'')"
    using hex2_denotes hex2_digits by blast
  have 8: "?msg = Inl (''always failing transaction ('' @ s @ '')'')"
    if "run ?u = Failed (ExecutionFailure s)"
    using that by (simp add: estimate_at_failed_probe(2))
  have 9: "(run ?u = OutOfGas \<and>
       error_message err = ''gas required exceeds allowance ('' @ decimal ?u @ '')'') \<or>
      (\<exists>g c. run g = Failed c \<and>
         error_message err =
           (case c of
              Reverted None \<Rightarrow> ''always failing transaction (execution reverted)''
            | Reverted (Some r') \<Rightarrow>
                ''always failing transaction (execution reverted) ('' @ r' @ '')''
            | InvalidInstruction b' \<Rightarrow>
                ''always failing transaction (invalid opcode: opcode 0x'' @ hex2 b' @
                '' not defined)''
            | ExecutionFailure s' \<Rightarrow> ''always failing transaction ('' @ s' @ '')''))"
    if e: "estimate run floor cap ceiling plain = Inl err"
  proof -
    from estimate_error [OF e] consider
        "run ?u = OutOfGas" "err = ExceedsAllowance ?u"
      | g c where "run g = Failed c" "err = AlwaysFailing c"
      by blast
    then show ?thesis
    proof cases
      case 1
      then show ?thesis by simp
    next
      case 2
      have "error_message (AlwaysFailing c) =
           (case c of
              Reverted None \<Rightarrow> ''always failing transaction (execution reverted)''
            | Reverted (Some r') \<Rightarrow>
                ''always failing transaction (execution reverted) ('' @ r' @ '')''
            | InvalidInstruction b' \<Rightarrow>
                ''always failing transaction (invalid opcode: opcode 0x'' @ hex2 b' @
                '' not defined)''
            | ExecutionFailure s' \<Rightarrow> ''always failing transaction ('' @ s' @ '')'')"
        by (simp split: cause.split option.split)
      with 2 show ?thesis by blast
    qed
  qed
  have 10: "m \<le> ?u \<and> run m = Success" if "estimate run floor cap ceiling plain = Inr m"
    using that by (rule estimate_sound)
  from 1 2 3 4 5 6 7 8 9 10 show ?thesis
    by blast
qed

text \<open>
  The failing cases of the test: the loop that exhausts the cap 100000, the revert with
  the reason revert reason, the bare revert of a transfer to a contract, and the failed
  assertion (instruction code 0xfe). Then a call without a cap that exhausts the
  ceiling; a plain transfer whose cap 100 lies below its floor; a call that fails at
  the upper bound with a text of its own; a call whose first candidate of the search,
  5010531, reverts, so that the search ends with that failure; and the case of the test
  that succeeds, estimated at 21275 under the cap 100000.
\<close>

theorem estimate_error_messages_witness:
  "map_sum error_message id (estimate (\<lambda>g. OutOfGas) 21064 (Some 100000) 10000000 False) =
     Inl ''gas required exceeds allowance (100000)'' \<and>
   read_decimal ''100000'' = 100000 \<and> hd ''100000'' \<noteq> CHR ''0'' \<and>
   map_sum error_message id
     (estimate (\<lambda>g. if g < 21300 then OutOfGas else Failed (Reverted (Some ''revert reason'')))
        21064 None 10000000 False) =
     Inl ''always failing transaction (execution reverted) (revert reason)'' \<and>
   map_sum error_message id
     (estimate (\<lambda>g. if g < 21000 then OutOfGas else Failed (Reverted None))
        21000 None 10000000 True) =
     Inl ''always failing transaction (execution reverted)'' \<and>
   map_sum error_message id
     (estimate (\<lambda>g. if g < 21300 then OutOfGas else Failed (InvalidInstruction 0xfe))
        21064 (Some 100000) 10000000 False) =
     Inl ''always failing transaction (invalid opcode: opcode 0xfe not defined)'' \<and>
   read_hex ''fe'' = unat (0xfe :: byte) \<and>
   map_sum error_message id (estimate (\<lambda>g. OutOfGas) 21064 None 10000000 False) =
     Inl ''gas required exceeds allowance (10000000)'' \<and>
   map_sum error_message id (estimate (needs_gas 21000) 21000 (Some 100) 10000000 True) =
     Inl ''gas required exceeds allowance (100)'' \<and>
   map_sum error_message id
     (estimate (\<lambda>g. Failed (ExecutionFailure ''insufficient balance for transfer''))
        21000 None 10000000 True) =
     Inl ''always failing transaction (insufficient balance for transfer)'' \<and>
   estimate (\<lambda>g. if g = 5010531 then Failed (Reverted None) else needs_gas 30000 g)
      21064 None 10000000 False = Inl (AlwaysFailing (Reverted None)) \<and>
   error_message (AlwaysFailing (Reverted None)) =
     ''always failing transaction (execution reverted)'' \<and>
   estimate (needs_gas 21275) 21064 (Some 100000) 10000000 False = Inr 21275 \<and>
   (21275::nat) \<le> upper_bound (Some 100000) 10000000 \<and> needs_gas 21275 21275 = Success"
proof -
  have d: "decimal 100000 = ''100000''" "decimal 10000000 = ''10000000''" "decimal 100 = ''100''"
    by (simp_all add: decimal.simps hexdigit_def)
  have h: "hex2 0xfe = ''fe''"
    by (simp add: hex2_def hexdigit_def)
  have 1: "map_sum error_message id
      (estimate (\<lambda>g. OutOfGas) 21064 (Some 100000) 10000000 False) =
     Inl ''gas required exceeds allowance (100000)''"
    using estimate_error_messages
      [where cap = "Some 100000" and k = 100000 and ceiling = 10000000 and floor = 21064
        and plain = False and run = "\<lambda>g. OutOfGas"] d
    by simp
  from estimate_error_messages [where n = 100000] d
  have n: "read_decimal ''100000'' = 100000 \<and> hd ''100000'' \<noteq> CHR ''0''"
    by simp
  have 2: "map_sum error_message id
     (estimate (\<lambda>g. if g < 21300 then OutOfGas else Failed (Reverted (Some ''revert reason'')))
        21064 None 10000000 False) =
     Inl ''always failing transaction (execution reverted) (revert reason)''"
    using estimate_error_messages
      [where cap = None and ceiling = 10000000 and floor = 21064 and plain = False
        and r = "''revert reason''"
        and run = "\<lambda>g. if g < 21300 then OutOfGas else Failed (Reverted (Some ''revert reason''))"]
    by (simp add: upper_bound_def)
  have 3: "map_sum error_message id
     (estimate (\<lambda>g. if g < 21000 then OutOfGas else Failed (Reverted None))
        21000 None 10000000 True) =
     Inl ''always failing transaction (execution reverted)''"
    using estimate_error_messages
      [where cap = None and ceiling = 10000000 and floor = 21000 and plain = True
        and run = "\<lambda>g. if g < 21000 then OutOfGas else Failed (Reverted None)"]
    by (simp add: upper_bound_def)
  have 4: "map_sum error_message id
     (estimate (\<lambda>g. if g < 21300 then OutOfGas else Failed (InvalidInstruction 0xfe))
        21064 (Some 100000) 10000000 False) =
     Inl ''always failing transaction (invalid opcode: opcode 0xfe not defined)''"
    using estimate_error_messages
      [where cap = "Some 100000" and ceiling = 10000000 and floor = 21064 and plain = False
        and b = "0xfe"
        and run = "\<lambda>g. if g < 21300 then OutOfGas else Failed (InvalidInstruction 0xfe)"] h
    by (simp add: upper_bound_def)
  from estimate_error_messages [where b = "0xfe"] h
  have 5: "read_hex ''fe'' = unat (0xfe :: byte)"
    by simp
  have 6: "map_sum error_message id (estimate (\<lambda>g. OutOfGas) 21064 None 10000000 False) =
     Inl ''gas required exceeds allowance (10000000)''"
    using estimate_error_messages
      [where cap = None and ceiling = 10000000 and floor = 21064 and plain = False
        and run = "\<lambda>g. OutOfGas"] d
    by simp
  have 7: "map_sum error_message id (estimate (needs_gas 21000) 21000 (Some 100) 10000000 True) =
     Inl ''gas required exceeds allowance (100)''"
    using estimate_error_messages
      [where cap = "Some 100" and k = 100 and ceiling = 10000000 and floor = 21000
        and plain = True and run = "needs_gas 21000"] d
    by (simp add: needs_gas_def)
  have 8: "map_sum error_message id
     (estimate (\<lambda>g. Failed (ExecutionFailure ''insufficient balance for transfer''))
        21000 None 10000000 True) =
     Inl ''always failing transaction (insufficient balance for transfer)''"
    using estimate_error_messages
      [where cap = None and ceiling = 10000000 and floor = 21000 and plain = True
        and s = "''insufficient balance for transfer''"
        and run = "\<lambda>g. Failed (ExecutionFailure ''insufficient balance for transfer'')"]
    by simp
  let ?run = "\<lambda>g. if g = 5010531 then Failed (Reverted None) else needs_gas 30000 g"
  have e: "estimate ?run 21064 None 10000000 False = Inl (AlwaysFailing (Reverted None))"
    by (simp add: estimate_def Let_def upper_bound_def needs_gas_def search.simps)
  have c: "?run g = Failed c \<Longrightarrow> c = Reverted None" for g c
    by (simp add: needs_gas_def split: if_splits)
  have u: "?run (upper_bound None 10000000) \<noteq> OutOfGas"
    by (simp add: upper_bound_def needs_gas_def)
  from estimate_error_messages
    [where cap = None and ceiling = 10000000 and floor = 21064 and plain = False
      and run = ?run and err = "AlwaysFailing (Reverted None)"] e u
  obtain g c' where g: "?run g = Failed c'"
    "error_message (AlwaysFailing (Reverted None)) =
       (case c' of
          Reverted None \<Rightarrow> ''always failing transaction (execution reverted)''
        | Reverted (Some r') \<Rightarrow>
            ''always failing transaction (execution reverted) ('' @ r' @ '')''
        | InvalidInstruction b' \<Rightarrow>
            ''always failing transaction (invalid opcode: opcode 0x'' @ hex2 b' @
            '' not defined)''
        | ExecutionFailure s' \<Rightarrow> ''always failing transaction ('' @ s' @ '')'')"
    by blast
  from c [OF g(1)] g(2)
  have 9: "error_message (AlwaysFailing (Reverted None)) =
     ''always failing transaction (execution reverted)''"
    by simp
  have v: "estimate (needs_gas 21275) 21064 (Some 100000) 10000000 False = Inr 21275"
    by (simp add: estimate_def Let_def upper_bound_def needs_gas_def search.simps)
  with estimate_error_messages
    [where cap = "Some 100000" and ceiling = 10000000 and floor = 21064 and plain = False
      and run = "needs_gas 21275" and m = 21275]
  have 10: "(21275::nat) \<le> upper_bound (Some 100000) 10000000 \<and> needs_gas 21275 21275 = Success"
    by blast
  from 1 n 2 3 4 5 6 7 8 e 9 v 10 show ?thesis by blast
qed

end
